theory Spec2Isabelle
  imports Complex_Main "HOL-Library.Word" "HOL-Library.Sublist"
begin

unbundle bit_operations_syntax

section \<open>Text helpers shared by both components\<close>

text \<open>
  \<open>QString\<close> is modelled by \<open>string\<close>. \<open>QString::arg(int)\<close> and \<open>QString::number(int)\<close>
  print a number in decimal; \<open>show_int\<close> is that rendering.
\<close>

definition digit_char :: "nat \<Rightarrow> char" where
  "digit_char d = ''0123456789'' ! d"

fun show_nat :: "nat \<Rightarrow> string" where
  "show_nat n = (if n < 10 then [digit_char n] else show_nat (n div 10) @ [digit_char (n mod 10)])"

declare show_nat.simps [simp del]

definition show_int :: "int \<Rightarrow> string" where
  "show_int i = (if i < 0 then CHR ''-'' # show_nat (nat (- i)) else show_nat (nat i))"

section \<open>The mod-platform API adapter (class FlameAPI)\<close>

text \<open>
  \<open>ModPlatform::ModLoaderTypes\<close> is a \<open>QFlags\<close> bit mask over an \<open>int\<close>, here a 32-bit word.
  The enumerators \<open>ModPlatform::NeoForge\<close>, \<open>Forge\<close>, \<open>Fabric\<close> and \<open>Quilt\<close> are declared in
  \<open>modplatform/ModIndex.h\<close>; their bit values are taken as a parameter, the record
  \<open>ModLoaderBits\<close>.
\<close>

type_synonym ModLoaderTypes = "32 word"

record ModLoaderBits =
  NeoForge :: "32 word"
  Forge :: "32 word"
  Fabric :: "32 word"
  Quilt :: "32 word"

text \<open>\<open>loaders & flag\<close> used as a condition: some bit of \<open>flag\<close> is set in \<open>loaders\<close>.\<close>

definition testFlags :: "ModLoaderTypes \<Rightarrow> 32 word \<Rightarrow> bool" where
  "testFlags loaders flag = (loaders AND flag \<noteq> 0)"

definition validateModLoaders :: "ModLoaderBits \<Rightarrow> ModLoaderTypes \<Rightarrow> bool" where
  "validateModLoaders ml loaders =
     testFlags loaders (NeoForge ml OR Forge ml OR Fabric ml OR Quilt ml)"

definition getMappedModLoader :: "ModLoaderBits \<Rightarrow> ModLoaderTypes \<Rightarrow> int" where
  "getMappedModLoader ml loaders =
     (if testFlags loaders (Forge ml) then 1
      else if testFlags loaders (Fabric ml) then 4
      else if testFlags loaders (Quilt ml) then 5
      else if testFlags loaders (NeoForge ml) then 6
      else 0)"

text \<open>
  \<open>ModPlatform::getOverrideDeps()\<close> returns a list of override entries; the list and the
  entry type live outside the file at hand. The entry is modelled with the two fields that
  \<open>getDependencyURL\<close> reads, and the table is a parameter.
\<close>

datatype ResourceProvider = MODRINTH | FLAME

record OverrideDep =
  quilt :: string
  provider :: ResourceProvider

text \<open>
  \<open>DependencySearchArgs\<close>: \<open>addonId\<close> stands for \<open>args.dependency.addonId.toString()\<close> and
  \<open>mcVersion\<close> for \<open>args.mcVersion.toString()\<close>.
\<close>

record DependencySearchArgs =
  addonId :: string
  mcVersion :: string
  loader :: ModLoaderTypes

text \<open>The predicate given to \<open>std::find_if\<close>.\<close>

definition over_matches :: "string \<Rightarrow> OverrideDep \<Rightarrow> bool" where
  "over_matches aid dep = (provider dep = FLAME \<and> aid = quilt dep)"

text \<open>
  The loader id that \<open>getDependencyURL\<close> substitutes for \<open>%3\<close>: the local variable
  \<open>mappedModLoader\<close> at the point the URL is formatted.
\<close>

definition mappedModLoader :: "ModLoaderBits \<Rightarrow> OverrideDep list \<Rightarrow> DependencySearchArgs \<Rightarrow> int" where
  "mappedModLoader ml overide args =
     (if testFlags (loader args) (Quilt ml) then
        (case find (over_matches (addonId args)) overide of
           Some over \<Rightarrow> 5
         | None \<Rightarrow> getMappedModLoader ml (loader args))
      else getMappedModLoader ml (loader args))"

text \<open>
  The URL template has the place markers \<open>%1\<close>, \<open>%2\<close>, \<open>%3\<close>, filled by three chained
  \<open>arg\<close> calls with the addon id, the game version and the loader id. The model writes the
  filled template as a concatenation, which is what the chain produces when the addon id
  and the version text contain no place marker of their own.
\<close>

definition getDependencyURL ::
    "ModLoaderBits \<Rightarrow> OverrideDep list \<Rightarrow> DependencySearchArgs \<Rightarrow> string option" where
  "getDependencyURL ml overide args =
     Some (''https://api.curseforge.com/v1/mods/'' @ addonId args
           @ ''/files?pageSize=10000&gameVersion='' @ mcVersion args
           @ ''&modLoaderType='' @ show_int (mappedModLoader ml overide args))"

section \<open>The external updater (class PrismExternalUpdater)\<close>

subsection \<open>Double-precision numbers\<close>

text \<open>
  A C++ \<open>double\<close> is an IEEE 754 binary64 number: a finite value, an infinity or
  not-a-number. A finite double is modelled by its value, a real number; the sign of a
  zero is not modelled, since the code only compares doubles and converts them to
  integers. The result of an arithmetic operation on finite doubles is the exact result
  rounded to the nearest binary64 value, ties to the even significand, which \<open>rnd\<close>
  computes: 53 significant bits above the subnormal range, multiples of \<open>2 ^ -1074\<close>
  inside it, and an infinity from \<open>2 ^ 1024\<close> on.
\<close>

datatype double = Fin real | PInf | NInf | NaN

fun bit_length :: "nat \<Rightarrow> nat" where
  "bit_length n = (if n = 0 then 0 else Suc (bit_length (n div 2)))"

declare bit_length.simps [simp del]

definition round_half_even :: "real \<Rightarrow> int" where
  "round_half_even q =
     (let f = \<lfloor>q\<rfloor>; d = q - of_int f
      in if d < 1 / 2 then f else if 1 / 2 < d then f + 1 else if even f then f else f + 1)"

text \<open>
  Rounding of a positive real. For \<open>1 \<le> x\<close> the bit length \<open>b\<close> of its integer part gives
  \<open>2 ^ (b - 1) \<le> x < 2 ^ b\<close>; for \<open>x < 1\<close> the number \<open>k\<close> gives \<open>2 ^ -k \<le> x < 2 ^ (1 - k)\<close>.
\<close>

definition round_pos :: "real \<Rightarrow> real" where
  "round_pos x =
     (if 1 \<le> x then
        (let b = bit_length (nat \<lfloor>x\<rfloor>)
         in if b \<le> 53 then of_int (round_half_even (x * 2 ^ (53 - b))) / 2 ^ (53 - b)
            else of_int (round_half_even (x / 2 ^ (b - 53))) * 2 ^ (b - 53))
      else
        (let k = bit_length (nat (\<lceil>1 / x\<rceil> - 1));
             n = min (k + 52) 1074
         in of_int (round_half_even (x * 2 ^ n)) / 2 ^ n))"

definition rnd :: "real \<Rightarrow> double" where
  "rnd x =
     (if x = 0 then Fin 0
      else (let r = round_pos \<bar>x\<bar>
            in if 2 ^ 1024 \<le> r then (if x < 0 then NInf else PInf)
               else Fin (if x < 0 then - r else r)))"

text \<open>A real number that is the value of a finite double.\<close>

definition is_double :: "real \<Rightarrow> bool" where
  "is_double x = (rnd x = Fin x)"

text \<open>
  The conversion of an integer to \<open>double\<close>, subtraction, multiplication and the
  comparison \<open>d < 0\<close>.
\<close>

definition double_of_int :: "int \<Rightarrow> double" where
  "double_of_int k = rnd (of_int k)"

fun dsub :: "double \<Rightarrow> double \<Rightarrow> double" where
  "dsub (Fin x) (Fin y) = rnd (x - y)"
| "dsub NaN b = NaN"
| "dsub a NaN = NaN"
| "dsub PInf PInf = NaN"
| "dsub NInf NInf = NaN"
| "dsub PInf b = PInf"
| "dsub NInf b = NInf"
| "dsub a PInf = NInf"
| "dsub a NInf = PInf"

definition dless0 :: "double \<Rightarrow> bool" where
  "dless0 d = (case d of Fin x \<Rightarrow> x < 0 | NInf \<Rightarrow> True | PInf \<Rightarrow> False | NaN \<Rightarrow> False)"

fun dmul :: "double \<Rightarrow> double \<Rightarrow> double" where
  "dmul (Fin x) (Fin y) = rnd (x * y)"
| "dmul NaN b = NaN"
| "dmul a NaN = NaN"
| "dmul a b = (if a = Fin 0 \<or> b = Fin 0 then NaN else if dless0 a = dless0 b then PInf else NInf)"

subsection \<open>Qt values the updater works with\<close>

text \<open>
  \<open>QChar::isSpace\<close> on the ASCII range, and \<open>QString::trimmed\<close>, which removes white space
  from both ends.
\<close>

definition QChar_isSpace :: "char \<Rightarrow> bool" where
  "QChar_isSpace c = (c \<in> set [CHR '' '', CHR 0x09, CHR 0x0A, CHR 0x0B, CHR 0x0C, CHR 0x0D])"

definition trimmed :: "string \<Rightarrow> string" where
  "trimmed s = rev (dropWhile QChar_isSpace (rev (dropWhile QChar_isSpace s)))"

definition to_lower :: "char \<Rightarrow> char" where
  "to_lower c =
     (case map_of (zip ''ABCDEFGHIJKLMNOPQRSTUVWXYZ'' ''abcdefghijklmnopqrstuvwxyz'') c of
        None \<Rightarrow> c | Some l \<Rightarrow> l)"

text \<open>
  \<open>QString::toInt\<close>: optional white space around an optionally signed run of decimal
  digits, whose value must fit an \<open>int\<close>; the second component is the \<open>ok\<close> flag.
\<close>

definition digit_of :: "char \<Rightarrow> nat option" where
  "digit_of c = map_of (zip ''0123456789'' [0, 1, 2, 3, 4, 5, 6, 7, 8, 9]) c"

fun digits_val :: "nat \<Rightarrow> string \<Rightarrow> nat option" where
  "digits_val acc [] = Some acc"
| "digits_val acc (c # cs) =
     (case digit_of c of None \<Rightarrow> None | Some d \<Rightarrow> digits_val (10 * acc + d) cs)"

definition in_int_range :: "int \<Rightarrow> bool" where
  "in_int_range v = (- 2147483648 \<le> v \<and> v \<le> 2147483647)"

definition QString_toInt :: "string \<Rightarrow> int \<times> bool" where
  "QString_toInt s =
     (let t = trimmed s;
          neg = (t \<noteq> [] \<and> hd t = CHR ''-'');
          ds = (if t \<noteq> [] \<and> (hd t = CHR ''-'' \<or> hd t = CHR ''+'') then tl t else t)
      in if ds = [] then (0, False)
         else (case digits_val 0 ds of
                 None \<Rightarrow> (0, False)
               | Some n \<Rightarrow>
                   (let v = (if neg then - int n else int n)
                    in if in_int_range v then (v, True) else (0, False))))"

text \<open>
  A \<open>QDateTime\<close> is either invalid (\<open>None\<close>, the default-constructed value and the result
  of a failed parse) or a point in time, counted in milliseconds. \<open>secsTo\<close> is the
  millisecond difference divided by 1000 with C++ integer division, which truncates, and
  0 when either side is invalid.
\<close>

type_synonym QDateTime = "int option"

definition secsTo :: "QDateTime \<Rightarrow> QDateTime \<Rightarrow> int" where
  "secsTo a b =
     (case a of
        None \<Rightarrow> 0
      | Some x \<Rightarrow> (case b of None \<Rightarrow> 0 | Some y \<Rightarrow> sgn (y - x) * (\<bar>y - x\<bar> div 1000)))"

text \<open>
  What lies outside the repository and cannot be computed here is a parameter: the text
  Qt prints for a \<open>double\<close> (\<open>QString::number\<close> in its shortest form, which the settings
  backend uses), the ISO-8601 reading and printing of \<open>QDateTime\<close>, and the constants of
  \<open>BuildConfig\<close> and of the platform.
\<close>

record Env =
  number_g :: "double \<Rightarrow> string"
  fromString_ISODate :: "string \<Rightarrow> QDateTime"
  toString_ISODate :: "int \<Rightarrow> string"
  LAUNCHER_APP_BINARY_NAME :: string
  printableVersionString :: string
  Q_OS_WIN32 :: bool

text \<open>
  \<open>QVariant\<close> with the value types this code stores, and its conversions as Qt documents
  them. Converting a double variant to \<open>int\<close> rounds half away from zero; for a double that
  is not finite C++ leaves the conversion undefined, and the model reports failure. The
  updater never converts a double variant: what it reads comes from the file, as text.
\<close>

datatype QVariant = VInvalid | VBool bool | VInt int | VDouble double | VString string

fun toBool :: "QVariant \<Rightarrow> bool" where
  "toBool VInvalid = False"
| "toBool (VBool b) = b"
| "toBool (VInt i) = (i \<noteq> 0)"
| "toBool (VDouble d) = (d \<noteq> Fin 0)"
| "toBool (VString s) =
     (let l = map to_lower s in l \<noteq> [] \<and> l \<noteq> ''0'' \<and> l \<noteq> ''false'')"

fun toInt :: "QVariant \<Rightarrow> int \<times> bool" where
  "toInt VInvalid = (0, False)"
| "toInt (VBool b) = ((if b then 1 else 0), True)"
| "toInt (VInt i) = (i, True)"
| "toInt (VDouble d) =
     (case d of
        Fin x \<Rightarrow> ((if 0 \<le> x then \<lfloor>x + 1 / 2\<rfloor> else \<lceil>x - 1 / 2\<rceil>), True)
      | PInf \<Rightarrow> (0, False) | NInf \<Rightarrow> (0, False) | NaN \<Rightarrow> (0, False))"
| "toInt (VString s) = QString_toInt s"

fun toString :: "Env \<Rightarrow> QVariant \<Rightarrow> string" where
  "toString env VInvalid = []"
| "toString env (VBool b) = (if b then ''true'' else ''false'')"
| "toString env (VInt i) = show_int i"
| "toString env (VDouble d) = number_g env d"
| "toString env (VString s) = s"

definition isNull :: "QVariant \<Rightarrow> bool" where
  "isNull v = (v = VInvalid)"

definition isValid :: "QVariant \<Rightarrow> bool" where
  "isValid v = (v \<noteq> VInvalid)"

subsection \<open>The settings store\<close>

text \<open>
  A \<open>QSettings\<close> object in INI format: \<open>cache\<close> holds the values as the object sees them,
  \<open>ini\<close> the text on disk. \<open>setValue\<close> changes the cache, \<open>sync\<close> writes every value as
  text, and an object opened on a file sees each stored text as a string variant.

  The code brackets its reads and writes of skip entries with \<open>beginGroup("skip")\<close> and
  \<open>endGroup()\<close>; the group in force is an argument here, empty for none, and a key inside
  a group is the group name, a slash and the key. \<open>QSettings\<close> refuses an empty key with a
  warning: \<open>value\<close> then returns the invalid variant and \<open>setValue\<close> does nothing.
\<close>

record QSettings =
  cache :: "string \<rightharpoonup> QVariant"
  ini :: "string \<rightharpoonup> string"

definition open_settings :: "(string \<rightharpoonup> string) \<Rightarrow> QSettings" where
  "open_settings f = \<lparr>cache = (\<lambda>k. map_option VString (f k)), ini = f\<rparr>"

definition actualKey :: "string \<Rightarrow> string \<Rightarrow> string" where
  "actualKey grp k = (if grp = [] then k else grp @ ''/'' @ k)"

definition settings_value :: "QSettings \<Rightarrow> string \<Rightarrow> string \<Rightarrow> QVariant \<Rightarrow> QVariant" where
  "settings_value s grp k dflt =
     (if k = [] then VInvalid
      else (case cache s (actualKey grp k) of None \<Rightarrow> dflt | Some v \<Rightarrow> v))"

definition setValue :: "string \<Rightarrow> string \<Rightarrow> QVariant \<Rightarrow> QSettings \<Rightarrow> QSettings" where
  "setValue grp k v s = (if k = [] then s else s\<lparr>cache := (cache s)(actualKey grp k \<mapsto> v)\<rparr>)"

definition variantToString :: "Env \<Rightarrow> QVariant \<Rightarrow> string" where
  "variantToString env v = (if v = VInvalid then ''@Invalid()'' else toString env v)"

definition sync :: "Env \<Rightarrow> QSettings \<Rightarrow> QSettings" where
  "sync env s = s\<lparr>ini := (\<lambda>k. map_option (variantToString env) (cache s k))\<rparr>"

subsection \<open>The updater's state\<close>

text \<open>
  \<open>QTimer\<close>: \<open>start(msec)\<close> sets the interval and activates the timer, \<open>stop\<close> deactivates it.
\<close>

record QTimer =
  isActive :: bool
  interval :: int

definition timer_start :: "int \<Rightarrow> QTimer \<Rightarrow> QTimer" where
  "timer_start msec t = t\<lparr>isActive := True, interval := msec\<rparr>"

definition timer_stop :: "QTimer \<Rightarrow> QTimer" where
  "timer_stop t = t\<lparr>isActive := False\<rparr>"

text \<open>
  What a call does to the world outside the object (a process started, a dialog shown,
  the application told to exit, the timer started or stopped) is appended to \<open>events\<close>.
\<close>

datatype Event =
    ProcessStart string "string list"
  | NoUpdateMessage
  | CheckErrorMessage string
  | UpdateDialog string string string
  | StartDetached string "string list"
  | ApplicationExit
  | TimerStart int
  | TimerStop

text \<open>
  \<open>PrismExternalUpdater::Private\<close>, with the event trace as an extra field. The timer's
  \<open>timeout\<close> signal stays connected to \<open>autoCheckTimerFired\<close> from construction on.
\<close>

record Private =
  appDir :: string
  dataDir :: string
  updateTimer :: QTimer
  allowBeta :: bool
  autoCheck :: bool
  updateInterval :: double
  lastCheck :: QDateTime
  settings :: QSettings
  events :: "Event list"

text \<open>
  The conversion of a \<open>double\<close> to \<open>int\<close> truncates towards zero; C++ leaves it undefined
  when the truncated value does not fit the \<open>int\<close>, and for an infinity and not-a-number.
  The model returns an error there: the behaviour of the call that converts is undefined.
\<close>

datatype error = UndefinedConversion

definition double_to_int :: "double \<Rightarrow> error + int" where
  "double_to_int d =
     (case d of
        Fin x \<Rightarrow>
          (let t = (if x < 0 then \<lceil>x\<rceil> else \<lfloor>x\<rfloor>)
           in if in_int_range t then Inr t else Inl UndefinedConversion)
      | PInf \<Rightarrow> Inl UndefinedConversion
      | NInf \<Rightarrow> Inl UndefinedConversion
      | NaN \<Rightarrow> Inl UndefinedConversion)"

subsection \<open>The scheduler\<close>

text \<open>
  The seconds left until the next check, as \<open>resetAutoCheckTimer\<close> computes them when a
  valid last check is recorded: the local variable \<open>secs_left\<close> after the clamp. The
  integer \<open>diff\<close> is converted to \<open>double\<close> for the subtraction, and the difference is
  rounded.
\<close>

definition secs_left :: "double \<Rightarrow> QDateTime \<Rightarrow> int \<Rightarrow> double" where
  "secs_left upd lc now =
     (let diff = secsTo lc (Some now);
          left = dsub upd (double_of_int diff)
      in if dless0 left then Fin 0 else left)"

text \<open>
  The local variable \<open>timeoutDuration\<close> when the timer is started: the product of
  \<open>secs_left\<close> and 1000, rounded as a double and then converted to \<open>int\<close>.
\<close>

definition timeoutDuration :: "Private \<Rightarrow> int \<Rightarrow> error + int" where
  "timeoutDuration p now =
     (if lastCheck p \<noteq> None
      then double_to_int (dmul (secs_left (updateInterval p) (lastCheck p) now) (Fin 1000))
      else Inr 0)"

definition resetAutoCheckTimer :: "int \<Rightarrow> Private \<Rightarrow> error + Private" where
  "resetAutoCheckTimer now p =
     (if autoCheck p then
        (case timeoutDuration p now of
           Inl e \<Rightarrow> Inl e
         | Inr msec \<Rightarrow>
             Inr (p\<lparr>updateTimer := timer_start msec (updateTimer p),
                    events := events p @ [TimerStart msec]\<rparr>))
      else if isActive (updateTimer p) then
        Inr (p\<lparr>updateTimer := timer_stop (updateTimer p), events := events p @ [TimerStop]\<rparr>)
      else Inr p)"

subsection \<open>Construction and the preference setters\<close>

text \<open>
  The constructor in two steps: \<open>read_settings\<close> is the state after the preferences are
  read from the settings file (up to the call of \<open>connectTimer\<close>), and the constructor
  ends with \<open>resetAutoCheckTimer\<close> on that state. The \<open>int\<close> read for the interval, and
  the default 86400, are converted to \<open>double\<close> by the assignment.
\<close>

definition read_settings ::
    "Env \<Rightarrow> string \<Rightarrow> string \<Rightarrow> (string \<rightharpoonup> string) \<Rightarrow> Private" where
  "read_settings env app_dir data_dir settings_file =
     (let s = open_settings settings_file;
          interval_read = toInt (settings_value s [] ''update_interval'' (VInt 86400));
          last_check = settings_value s [] ''last_check'' VInvalid
      in \<lparr>appDir = app_dir,
          dataDir = data_dir,
          updateTimer = \<lparr>isActive = False, interval = 0\<rparr>,
          allowBeta = toBool (settings_value s [] ''allow_beta'' (VBool False)),
          autoCheck = toBool (settings_value s [] ''auto_check'' (VBool False)),
          updateInterval = (if snd interval_read then double_of_int (fst interval_read)
                            else double_of_int 86400),
          lastCheck = (if \<not> isNull last_check \<and> isValid last_check
                       then fromString_ISODate env (toString env last_check) else None),
          settings = s,
          events = []\<rparr>)"

definition PrismExternalUpdater ::
    "Env \<Rightarrow> int \<Rightarrow> string \<Rightarrow> string \<Rightarrow> (string \<rightharpoonup> string) \<Rightarrow> error + Private" where
  "PrismExternalUpdater env now app_dir data_dir settings_file =
     resetAutoCheckTimer now (read_settings env app_dir data_dir settings_file)"

definition setAutomaticallyChecksForUpdates :: "Env \<Rightarrow> int \<Rightarrow> bool \<Rightarrow> Private \<Rightarrow> error + Private" where
  "setAutomaticallyChecksForUpdates env now check p =
     resetAutoCheckTimer now
       (p\<lparr>autoCheck := check,
          settings := sync env (setValue [] ''auto_check'' (VBool check) (settings p))\<rparr>)"

definition setUpdateCheckInterval :: "Env \<Rightarrow> int \<Rightarrow> double \<Rightarrow> Private \<Rightarrow> error + Private" where
  "setUpdateCheckInterval env now seconds p =
     resetAutoCheckTimer now
       (p\<lparr>updateInterval := seconds,
          settings := sync env (setValue [] ''update_interval'' (VDouble seconds) (settings p))\<rparr>)"

definition setBetaAllowed :: "Env \<Rightarrow> bool \<Rightarrow> Private \<Rightarrow> Private" where
  "setBetaAllowed env allowed p =
     p\<lparr>allowBeta := allowed,
       settings := sync env (setValue [] ''auto_beta'' (VBool allowed) (settings p))\<rparr>"

subsection \<open>The check flow\<close>

text \<open>
  Modelled from the spec: \<open>StringUtils::splitFirst\<close>, declared in \<open>StringUtils.h\<close>, is
  called here and defined elsewhere. The spec reads the checker's output line by line,
  each line as label, separator and value, and says that missing lines give empty
  fields. So \<open>splitFirst s sep\<close> is the text before the first occurrence of \<open>sep\<close> and
  the text after it; when \<open>sep\<close> does not occur, the first part is all of \<open>s\<close> and the
  second is empty.
\<close>

fun splitFirst :: "string \<Rightarrow> string \<Rightarrow> string \<times> string" where
  "splitFirst [] sep = ([], [])"
| "splitFirst (c # cs) sep =
     (if prefix sep (c # cs) then ([], drop (length sep) (c # cs))
      else (case splitFirst cs sep of (l, r) \<Rightarrow> (c # l, r)))"

text \<open>
  The outcome of one run of the checker process. Whether the process started and
  finished in time only goes to the debug log, so it is not part of the record.
\<close>

record ProcessResult =
  exit_code :: int
  std_output :: string
  std_error :: string

text \<open>
  The block under \<open>case 100\<close> that takes the output apart, with the source's local names.
\<close>

record UpdateInfo =
  version_name :: string
  version_tag :: string
  release_timestamp :: QDateTime
  release_notes :: string

definition parse_update_output :: "Env \<Rightarrow> string \<Rightarrow> UpdateInfo" where
  "parse_update_output env out =
     (let l1 = splitFirst out ''\<newline>'';
          l2 = splitFirst (snd l1) ''\<newline>'';
          l3 = splitFirst (snd l2) ''\<newline>''
      in \<lparr>version_name = trimmed (snd (splitFirst (fst l1) '': '')),
          version_tag = trimmed (snd (splitFirst (fst l2) '': '')),
          release_timestamp =
            fromString_ISODate env (trimmed (snd (splitFirst (fst l3) '': ''))),
          release_notes = snd l3\<rparr>)"

definition exe_name :: "Env \<Rightarrow> string" where
  "exe_name env =
     LAUNCHER_APP_BINARY_NAME env @ ''_updater'' @ (if Q_OS_WIN32 env then ''.exe'' else [])"

definition absoluteFilePath :: "string \<Rightarrow> string \<Rightarrow> string" where
  "absoluteFilePath dir name = dir @ ''/'' @ name"

text \<open>
  \<open>QCoreApplication::exit\<close> asks the event loop to stop and returns to its caller, so
  \<open>performUpdate\<close> returns to \<open>offerUpdate\<close>.
\<close>

definition performUpdate :: "Env \<Rightarrow> string \<Rightarrow> Private \<Rightarrow> Private" where
  "performUpdate env tag p =
     (let args = [''--dir'', dataDir p, ''--install-version'', tag]
                 @ (if allowBeta p then [''--pre-release''] else [])
      in p\<lparr>events := events p
             @ [StartDetached (absoluteFilePath (appDir p) (exe_name env)) args,
                ApplicationExit]\<rparr>)"

text \<open>
  The value \<open>dlg.exec()\<close> returns: one of the three result codes of
  \<open>UpdateAvailableDialog\<close>, or any other number, for which the \<open>switch\<close> has no case.
\<close>

datatype ResultCode = Install | Skip | DontInstall | OtherCode

text \<open>The body of \<open>case UpdateAvailableDialog::Skip\<close>.\<close>

definition mark_skipped :: "Env \<Rightarrow> string \<Rightarrow> Private \<Rightarrow> Private" where
  "mark_skipped env tag p =
     p\<lparr>settings := sync env (setValue ''skip'' tag (VBool True) (settings p))\<rparr>"

definition should_skip :: "Private \<Rightarrow> string \<Rightarrow> bool" where
  "should_skip p tag = toBool (settings_value (settings p) ''skip'' tag (VBool False))"

text \<open>
  \<open>case Install\<close> has no \<open>break\<close> and no \<open>return\<close>: after \<open>performUpdate\<close> control runs
  on into the body of \<open>case Skip\<close>.
\<close>

definition offerUpdate :: "Env \<Rightarrow> ResultCode \<Rightarrow> string \<Rightarrow> string \<Rightarrow> string \<Rightarrow> Private \<Rightarrow> Private" where
  "offerUpdate env answer name tag notes p =
     (if should_skip p tag then p
      else
        (let p1 = p\<lparr>events := events p @ [UpdateDialog (printableVersionString env) name notes]\<rparr>
         in case answer of
              Install \<Rightarrow> mark_skipped env tag (performUpdate env tag p1)
            | Skip \<Rightarrow> mark_skipped env tag p1
            | DontInstall \<Rightarrow> p1
            | OtherCode \<Rightarrow> p1))"

definition checkForUpdates :: "Env \<Rightarrow> ProcessResult \<Rightarrow> ResultCode \<Rightarrow> int \<Rightarrow> Private \<Rightarrow> Private" where
  "checkForUpdates env pr answer now p =
     (let args = [''--check-only'', ''--dir'', dataDir p, ''--debug'']
                 @ (if allowBeta p then [''--pre-release''] else []);
          p1 = p\<lparr>events := events p
                  @ [ProcessStart (absoluteFilePath (appDir p) (exe_name env)) args]\<rparr>;
          p2 = (if exit_code pr = 0 then p1\<lparr>events := events p1 @ [NoUpdateMessage]\<rparr>
                else if exit_code pr = 1
                  then p1\<lparr>events := events p1 @ [CheckErrorMessage (std_error pr)]\<rparr>
                else if exit_code pr = 100
                  then (let u = parse_update_output env (std_output pr)
                        in offerUpdate env answer (version_name u) (version_tag u)
                             (release_notes u) p1)
                else p1)
      in p2\<lparr>lastCheck := Some now,
            settings := sync env (setValue [] ''last_check''
                          (VString (toString_ISODate env now)) (settings p2))\<rparr>)"

definition autoCheckTimerFired :: "Env \<Rightarrow> ProcessResult \<Rightarrow> ResultCode \<Rightarrow> int \<Rightarrow> Private \<Rightarrow> Private" where
  "autoCheckTimerFired env pr answer now p = checkForUpdates env pr answer now p"

text \<open>Whether an event is the update dialog being shown to the operator.\<close>

fun is_offer :: "Event \<Rightarrow> bool" where
  "is_offer (UpdateDialog cur name notes) = True"
| "is_offer e = False"

subsection \<open>Concrete inputs\<close>

text \<open>
  An environment and a freshly constructed state for evaluating the definitions. The
  environment prints the numbers used below the way Qt does (\<open>3600\<close> as \<open>3600\<close>, one half
  as \<open>0.5\<close>) and reads one timestamp.
\<close>

definition example_env :: Env where
  "example_env =
     \<lparr>number_g = (\<lambda>d. case d of
                       Fin x \<Rightarrow> if x = 1 / 2 then ''0.5'' else show_int \<lfloor>x\<rfloor>
                     | PInf \<Rightarrow> ''inf'' | NInf \<Rightarrow> ''-inf'' | NaN \<Rightarrow> ''nan''),
      fromString_ISODate =
        (\<lambda>s. if s = ''2024-01-01T00:00:00'' then Some 1704067200000 else None),
      toString_ISODate = (\<lambda>t. ''2024-01-01T00:00:00''),
      LAUNCHER_APP_BINARY_NAME = ''prismlauncher'',
      printableVersionString = ''8.0'',
      Q_OS_WIN32 = False\<rparr>"

definition example_priv :: Private where
  "example_priv =
     \<lparr>appDir = ''/app'', dataDir = ''/data'',
      updateTimer = \<lparr>isActive = False, interval = 0\<rparr>,
      allowBeta = False, autoCheck = False, updateInterval = Fin 86400,
      lastCheck = None, settings = open_settings Map.empty, events = []\<rparr>"

section \<open>Properties of the API adapter\<close>

lemmas show_nat_numeral =
  show_nat.simps [of "numeral n" for n] show_nat.simps [of 0] show_nat.simps [of 1]
  show_nat.simps [of "Suc 0"]

lemma show_int_digit [simp]:
  "show_int 0 = ''0''" "show_int 1 = ''1''" "show_int 4 = ''4''"
  "show_int 5 = ''5''" "show_int 6 = ''6''"
  by (simp_all add: show_int_def show_nat_numeral digit_char_def)

text \<open>
  C10. The static loader mapping resolves a flag set by a fixed priority: Forge gives 1;
  otherwise Fabric gives 4; otherwise Quilt gives 5; otherwise NeoForge gives 6; and a flag
  set with none of the four bits gives 0.
\<close>

theorem getMappedModLoader_priority:
  "(testFlags loaders (Forge ml) \<longrightarrow> getMappedModLoader ml loaders = 1) \<and>
   (\<not> testFlags loaders (Forge ml) \<and> testFlags loaders (Fabric ml)
      \<longrightarrow> getMappedModLoader ml loaders = 4) \<and>
   (\<not> testFlags loaders (Forge ml) \<and> \<not> testFlags loaders (Fabric ml)
      \<and> testFlags loaders (Quilt ml) \<longrightarrow> getMappedModLoader ml loaders = 5) \<and>
   (\<not> testFlags loaders (Forge ml) \<and> \<not> testFlags loaders (Fabric ml)
      \<and> \<not> testFlags loaders (Quilt ml) \<and> testFlags loaders (NeoForge ml)
      \<longrightarrow> getMappedModLoader ml loaders = 6) \<and>
   (\<not> testFlags loaders (Forge ml) \<and> \<not> testFlags loaders (Fabric ml)
      \<and> \<not> testFlags loaders (Quilt ml) \<and> \<not> testFlags loaders (NeoForge ml)
      \<longrightarrow> getMappedModLoader ml loaders = 0)"
  by (simp add: getMappedModLoader_def)

theorem getMappedModLoader_priority_witness:
  "testFlags 2 (Forge \<lparr>NeoForge = 1, Forge = 2, Fabric = 16, Quilt = 32\<rparr>) \<and>
   getMappedModLoader \<lparr>NeoForge = 1, Forge = 2, Fabric = 16, Quilt = 32\<rparr> 2 = 1 \<and>
   \<not> testFlags 48 (Forge \<lparr>NeoForge = 1, Forge = 2, Fabric = 16, Quilt = 32\<rparr>) \<and>
   testFlags 48 (Fabric \<lparr>NeoForge = 1, Forge = 2, Fabric = 16, Quilt = 32\<rparr>) \<and>
   getMappedModLoader \<lparr>NeoForge = 1, Forge = 2, Fabric = 16, Quilt = 32\<rparr> 48 = 4 \<and>
   \<not> testFlags 33 (Forge \<lparr>NeoForge = 1, Forge = 2, Fabric = 16, Quilt = 32\<rparr>) \<and>
   \<not> testFlags 33 (Fabric \<lparr>NeoForge = 1, Forge = 2, Fabric = 16, Quilt = 32\<rparr>) \<and>
   testFlags 33 (Quilt \<lparr>NeoForge = 1, Forge = 2, Fabric = 16, Quilt = 32\<rparr>) \<and>
   getMappedModLoader \<lparr>NeoForge = 1, Forge = 2, Fabric = 16, Quilt = 32\<rparr> 33 = 5 \<and>
   \<not> testFlags 1 (Forge \<lparr>NeoForge = 1, Forge = 2, Fabric = 16, Quilt = 32\<rparr>) \<and>
   \<not> testFlags 1 (Fabric \<lparr>NeoForge = 1, Forge = 2, Fabric = 16, Quilt = 32\<rparr>) \<and>
   \<not> testFlags 1 (Quilt \<lparr>NeoForge = 1, Forge = 2, Fabric = 16, Quilt = 32\<rparr>) \<and>
   testFlags 1 (NeoForge \<lparr>NeoForge = 1, Forge = 2, Fabric = 16, Quilt = 32\<rparr>) \<and>
   getMappedModLoader \<lparr>NeoForge = 1, Forge = 2, Fabric = 16, Quilt = 32\<rparr> 1 = 6 \<and>
   \<not> testFlags 12 (Forge \<lparr>NeoForge = 1, Forge = 2, Fabric = 16, Quilt = 32\<rparr>) \<and>
   \<not> testFlags 12 (Fabric \<lparr>NeoForge = 1, Forge = 2, Fabric = 16, Quilt = 32\<rparr>) \<and>
   \<not> testFlags 12 (Quilt \<lparr>NeoForge = 1, Forge = 2, Fabric = 16, Quilt = 32\<rparr>) \<and>
   \<not> testFlags 12 (NeoForge \<lparr>NeoForge = 1, Forge = 2, Fabric = 16, Quilt = 32\<rparr>) \<and>
   getMappedModLoader \<lparr>NeoForge = 1, Forge = 2, Fabric = 16, Quilt = 32\<rparr> 12 = 0"
  using getMappedModLoader_priority [of 2 "\<lparr>NeoForge = 1, Forge = 2, Fabric = 16, Quilt = 32\<rparr>"]
    getMappedModLoader_priority [of 48 "\<lparr>NeoForge = 1, Forge = 2, Fabric = 16, Quilt = 32\<rparr>"]
    getMappedModLoader_priority [of 33 "\<lparr>NeoForge = 1, Forge = 2, Fabric = 16, Quilt = 32\<rparr>"]
    getMappedModLoader_priority [of 1 "\<lparr>NeoForge = 1, Forge = 2, Fabric = 16, Quilt = 32\<rparr>"]
    getMappedModLoader_priority [of 12 "\<lparr>NeoForge = 1, Forge = 2, Fabric = 16, Quilt = 32\<rparr>"]
  by (simp add: testFlags_def)

lemma find_over_matches:
  "find (over_matches aid) overide = None \<longleftrightarrow>
     \<not> (\<exists>dep \<in> set overide. provider dep = FLAME \<and> aid = quilt dep)"
  by (auto simp: find_None_iff over_matches_def)

text \<open>
  C9. In the dependency URL, the \<open>modLoaderType\<close> parameter is 5 when the requested loader
  includes Quilt and the addon id is the \<open>quilt\<close> id of an entry of this provider in the
  override table; for every other request it is the value of the static mapping. The URL
  is a function of the request and the table alone.
\<close>

theorem getDependencyURL_modLoaderType:
  "getDependencyURL ml overide args =
     Some (''https://api.curseforge.com/v1/mods/'' @ addonId args
           @ ''/files?pageSize=10000&gameVersion='' @ mcVersion args
           @ ''&modLoaderType=''
           @ show_int (if testFlags (loader args) (Quilt ml)
                          \<and> (\<exists>dep \<in> set overide. provider dep = FLAME \<and> addonId args = quilt dep)
                       then 5 else getMappedModLoader ml (loader args)))"
proof (cases "find (over_matches (addonId args)) overide")
  case None
  with find_over_matches [of "addonId args" overide]
  have "\<not> (\<exists>dep \<in> set overide. provider dep = FLAME \<and> addonId args = quilt dep)"
    by simp
  with None show ?thesis
    by (auto simp: getDependencyURL_def mappedModLoader_def)
next
  case (Some over)
  with find_over_matches [of "addonId args" overide]
  have "\<exists>dep \<in> set overide. provider dep = FLAME \<and> addonId args = quilt dep"
    by simp
  with Some show ?thesis
    by (auto simp: getDependencyURL_def mappedModLoader_def)
qed

theorem getDependencyURL_modLoaderType_witness:
  "getDependencyURL \<lparr>NeoForge = 1, Forge = 2, Fabric = 16, Quilt = 32\<rparr>
     [\<lparr>quilt = ''634179'', provider = MODRINTH\<rparr>, \<lparr>quilt = ''634179'', provider = FLAME\<rparr>]
     \<lparr>addonId = ''634179'', mcVersion = ''1.20.1'', loader = 48\<rparr>
   = Some ''https://api.curseforge.com/v1/mods/634179/files?pageSize=10000&gameVersion=1.20.1&modLoaderType=5'' \<and>
   getDependencyURL \<lparr>NeoForge = 1, Forge = 2, Fabric = 16, Quilt = 32\<rparr>
     [\<lparr>quilt = ''634179'', provider = MODRINTH\<rparr>, \<lparr>quilt = ''634179'', provider = FLAME\<rparr>]
     \<lparr>addonId = ''306612'', mcVersion = ''1.20.1'', loader = 48\<rparr>
   = Some ''https://api.curseforge.com/v1/mods/306612/files?pageSize=10000&gameVersion=1.20.1&modLoaderType=4'' \<and>
   getDependencyURL \<lparr>NeoForge = 1, Forge = 2, Fabric = 16, Quilt = 32\<rparr>
     [\<lparr>quilt = ''634179'', provider = MODRINTH\<rparr>, \<lparr>quilt = ''634179'', provider = FLAME\<rparr>]
     \<lparr>addonId = ''634179'', mcVersion = ''1.20.1'', loader = 2\<rparr>
   = Some ''https://api.curseforge.com/v1/mods/634179/files?pageSize=10000&gameVersion=1.20.1&modLoaderType=1''"
  using getDependencyURL_modLoaderType
    [of "\<lparr>NeoForge = 1, Forge = 2, Fabric = 16, Quilt = 32\<rparr>"
        "[\<lparr>quilt = ''634179'', provider = MODRINTH\<rparr>, \<lparr>quilt = ''634179'', provider = FLAME\<rparr>]"
        "\<lparr>addonId = ''634179'', mcVersion = ''1.20.1'', loader = 48\<rparr>"]
    getDependencyURL_modLoaderType
    [of "\<lparr>NeoForge = 1, Forge = 2, Fabric = 16, Quilt = 32\<rparr>"
        "[\<lparr>quilt = ''634179'', provider = MODRINTH\<rparr>, \<lparr>quilt = ''634179'', provider = FLAME\<rparr>]"
        "\<lparr>addonId = ''306612'', mcVersion = ''1.20.1'', loader = 48\<rparr>"]
    getDependencyURL_modLoaderType
    [of "\<lparr>NeoForge = 1, Forge = 2, Fabric = 16, Quilt = 32\<rparr>"
        "[\<lparr>quilt = ''634179'', provider = MODRINTH\<rparr>, \<lparr>quilt = ''634179'', provider = FLAME\<rparr>]"
        "\<lparr>addonId = ''634179'', mcVersion = ''1.20.1'', loader = 2\<rparr>"]
  by (simp add: testFlags_def getMappedModLoader_def)

section \<open>Properties of the check flow\<close>

lemma actualKey_top [simp]: "actualKey [] k = k"
  by (simp add: actualKey_def)

subsection \<open>Taking the checker's output apart\<close>

lemma splitFirst_absent: "c \<notin> set l \<Longrightarrow> splitFirst l [c] = (l, [])"
  by (induction l) auto

lemma splitFirst_char: "c \<notin> set l \<Longrightarrow> splitFirst (l @ c # r) [c] = (l, r)"
  by (induction l) auto

lemma splitFirst_label:
  "CHR '':'' \<notin> set lab \<Longrightarrow> splitFirst (lab @ CHR '':'' # CHR '' '' # v) '': '' = (lab, v)"
  by (induction lab) auto

lemma splitFirst_line:
  assumes "CHR 0x0A \<notin> set lab" and "CHR 0x0A \<notin> set v"
  shows "splitFirst (lab @ CHR '':'' # CHR '' '' # v @ CHR 0x0A # r) [CHR 0x0A]
           = (lab @ CHR '':'' # CHR '' '' # v, r)"
proof -
  from assms have "CHR 0x0A \<notin> set (lab @ CHR '':'' # CHR '' '' # v)" by simp
  from splitFirst_char [OF this, of r] show ?thesis by simp
qed

lemma trimmed_Nil [simp]: "trimmed [] = []"
  by (simp add: trimmed_def)

text \<open>
  C3, as the code has it. An output of three lines \<open>label: value\<close>, each ended by a line
  break, followed by any text, parses to the trimmed values of lines 1 and 2 as version
  name and tag, the timestamp read from the trimmed value of line 3, and the text after
  the third line break, unchanged, as the release notes. For the output
  \<open>Version: 1.2.3\<close>, \<open>Tag: v1.2.3\<close>, \<open>Timestamp: 2024-01-01T00:00:00\<close>, \<open>Fixed bugs.\<close>
  (every line ended by a line break) the name is \<open>1.2.3\<close>, the tag \<open>v1.2.3\<close> and the
  notes are \<open>Fixed bugs.\<close> with its line break.
\<close>

theorem parse_update_output_three_lines:
  "(CHR 0x0A \<notin> set (lab1 @ v1 @ lab2 @ v2 @ lab3 @ v3) \<and>
    CHR '':'' \<notin> set (lab1 @ lab2 @ lab3) \<longrightarrow>
      parse_update_output env
        (lab1 @ '': '' @ v1 @ ''\<newline>'' @ lab2 @ '': '' @ v2 @ ''\<newline>''
          @ lab3 @ '': '' @ v3 @ ''\<newline>'' @ notes) =
        \<lparr>version_name = trimmed v1, version_tag = trimmed v2,
         release_timestamp = fromString_ISODate env (trimmed v3), release_notes = notes\<rparr>) \<and>
   parse_update_output env
     ''Version: 1.2.3\<newline>Tag: v1.2.3\<newline>Timestamp: 2024-01-01T00:00:00\<newline>Fixed bugs.\<newline>'' =
     \<lparr>version_name = ''1.2.3'', version_tag = ''v1.2.3'',
      release_timestamp = fromString_ISODate env ''2024-01-01T00:00:00'',
      release_notes = ''Fixed bugs.\<newline>''\<rparr>"
proof
  show "CHR 0x0A \<notin> set (lab1 @ v1 @ lab2 @ v2 @ lab3 @ v3) \<and>
    CHR '':'' \<notin> set (lab1 @ lab2 @ lab3) \<longrightarrow>
      parse_update_output env
        (lab1 @ '': '' @ v1 @ ''\<newline>'' @ lab2 @ '': '' @ v2 @ ''\<newline>''
          @ lab3 @ '': '' @ v3 @ ''\<newline>'' @ notes) =
        \<lparr>version_name = trimmed v1, version_tag = trimmed v2,
         release_timestamp = fromString_ISODate env (trimmed v3), release_notes = notes\<rparr>"
    by (simp add: parse_update_output_def Let_def splitFirst_line splitFirst_label)
next
  show "parse_update_output env
     ''Version: 1.2.3\<newline>Tag: v1.2.3\<newline>Timestamp: 2024-01-01T00:00:00\<newline>Fixed bugs.\<newline>'' =
     \<lparr>version_name = ''1.2.3'', version_tag = ''v1.2.3'',
      release_timestamp = fromString_ISODate env ''2024-01-01T00:00:00'',
      release_notes = ''Fixed bugs.\<newline>''\<rparr>"
    by (simp add: parse_update_output_def trimmed_def QChar_isSpace_def)
qed

theorem parse_update_output_three_lines_witness:
  "CHR 0x0A \<notin> set (''Version'' @ ''1.2.3'' @ ''Tag'' @ ''v1.2.3'' @ ''Timestamp''
      @ ''2024-01-01T00:00:00'') \<and>
   CHR '':'' \<notin> set (''Version'' @ ''Tag'' @ ''Timestamp'') \<and>
   parse_update_output example_env
     (''Version'' @ '': '' @ ''1.2.3'' @ ''\<newline>'' @ ''Tag'' @ '': '' @ ''v1.2.3'' @ ''\<newline>''
       @ ''Timestamp'' @ '': '' @ ''2024-01-01T00:00:00'' @ ''\<newline>'' @ ''Fixed bugs.\<newline>'') =
     \<lparr>version_name = ''1.2.3'', version_tag = ''v1.2.3'',
      release_timestamp = Some 1704067200000, release_notes = ''Fixed bugs.\<newline>''\<rparr>"
  using parse_update_output_three_lines
    [of "''Version''" "''1.2.3''" "''Tag''" "''v1.2.3''" "''Timestamp''"
        "''2024-01-01T00:00:00''" example_env "''Fixed bugs.\<newline>''"]
  by (simp add: trimmed_def QChar_isSpace_def example_env_def)

text \<open>
  C3 as stated fails on the release notes: for the output of the claim the notes are not
  \<open>Fixed bugs.\<close>; the line break that ends the output stays in them.
\<close>

theorem parse_update_output_notes_counterexample:
  "release_notes (parse_update_output example_env
     ''Version: 1.2.3\<newline>Tag: v1.2.3\<newline>Timestamp: 2024-01-01T00:00:00\<newline>Fixed bugs.\<newline>'')
   \<noteq> ''Fixed bugs.''"
  by (simp add: parse_update_output_def)

text \<open>
  C4. The parse is a total function of the output: it has a result for every text. For
  the empty output all three text fields are empty; for a single line without a line
  break the tag and the notes are empty; for two lines the notes are empty; and in each
  of these cases the timestamp is whatever \<open>QDateTime::fromString\<close> makes of the empty
  text; the same holds for a third line that no line break ends, with the timestamp
  read from it. When the value of line 3 does not read as a timestamp, the timestamp of
  the result is the invalid one and the other fields are as for a well-formed line.
\<close>

theorem parse_update_output_short:
  "parse_update_output env [] =
     \<lparr>version_name = [], version_tag = [], release_timestamp = fromString_ISODate env [],
      release_notes = []\<rparr> \<and>
   (CHR 0x0A \<notin> set l1 \<longrightarrow>
      parse_update_output env l1 =
        \<lparr>version_name = trimmed (snd (splitFirst l1 '': '')), version_tag = [],
         release_timestamp = fromString_ISODate env [], release_notes = []\<rparr>) \<and>
   (CHR 0x0A \<notin> set l1 \<and> CHR 0x0A \<notin> set l2 \<longrightarrow>
      parse_update_output env (l1 @ CHR 0x0A # l2) =
        \<lparr>version_name = trimmed (snd (splitFirst l1 '': '')),
         version_tag = trimmed (snd (splitFirst l2 '': '')),
         release_timestamp = fromString_ISODate env [], release_notes = []\<rparr>) \<and>
   (CHR 0x0A \<notin> set l1 \<and> CHR 0x0A \<notin> set l2 \<and> CHR 0x0A \<notin> set l3 \<longrightarrow>
      parse_update_output env (l1 @ CHR 0x0A # l2 @ CHR 0x0A # l3) =
        \<lparr>version_name = trimmed (snd (splitFirst l1 '': '')),
         version_tag = trimmed (snd (splitFirst l2 '': '')),
         release_timestamp = fromString_ISODate env (trimmed (snd (splitFirst l3 '': ''))),
         release_notes = []\<rparr>) \<and>
   (CHR 0x0A \<notin> set l1 \<and> CHR 0x0A \<notin> set l2 \<and> CHR 0x0A \<notin> set l3 \<and>
    fromString_ISODate env (trimmed (snd (splitFirst l3 '': ''))) = None \<longrightarrow>
      parse_update_output env (l1 @ CHR 0x0A # l2 @ CHR 0x0A # l3 @ CHR 0x0A # notes) =
        \<lparr>version_name = trimmed (snd (splitFirst l1 '': '')),
         version_tag = trimmed (snd (splitFirst l2 '': '')),
         release_timestamp = None, release_notes = notes\<rparr>)"
  by (simp add: parse_update_output_def splitFirst_absent splitFirst_char)

theorem parse_update_output_short_witness:
  "CHR 0x0A \<notin> set ''Version: 1.2.3'' \<and> CHR 0x0A \<notin> set ''Tag: v1.2.3'' \<and>
   CHR 0x0A \<notin> set ''Timestamp: yesterday'' \<and>
   fromString_ISODate example_env (trimmed (snd (splitFirst ''Timestamp: yesterday'' '': ''))) = None \<and>
   parse_update_output example_env ''Version: 1.2.3'' =
     \<lparr>version_name = ''1.2.3'', version_tag = [], release_timestamp = None,
      release_notes = []\<rparr> \<and>
   parse_update_output example_env ''Version: 1.2.3\<newline>Tag: v1.2.3'' =
     \<lparr>version_name = ''1.2.3'', version_tag = ''v1.2.3'', release_timestamp = None,
      release_notes = []\<rparr> \<and>
   parse_update_output example_env ''Version: 1.2.3\<newline>Tag: v1.2.3\<newline>Timestamp: yesterday'' =
     \<lparr>version_name = ''1.2.3'', version_tag = ''v1.2.3'', release_timestamp = None,
      release_notes = []\<rparr> \<and>
   parse_update_output example_env
     ''Version: 1.2.3\<newline>Tag: v1.2.3\<newline>Timestamp: yesterday\<newline>Fixed bugs.\<newline>'' =
     \<lparr>version_name = ''1.2.3'', version_tag = ''v1.2.3'', release_timestamp = None,
      release_notes = ''Fixed bugs.\<newline>''\<rparr>"
  using parse_update_output_short
    [of example_env "''Version: 1.2.3''" "''Tag: v1.2.3''" "''Timestamp: yesterday''"
        "''Fixed bugs.\<newline>''"]
  by (simp add: trimmed_def QChar_isSpace_def example_env_def)

subsection \<open>The offer\<close>

lemma should_skip_mark_skipped: "tag \<noteq> [] \<Longrightarrow> should_skip (mark_skipped env tag p) tag"
  by (simp add: should_skip_def mark_skipped_def sync_def setValue_def settings_value_def)

text \<open>
  C7. When the skip entry of a version tag reads as true, \<open>offerUpdate\<close> for that tag
  returns the state it was given: no dialog is shown (the event trace is part of the
  state) and nothing is written. In particular, once the operator has answered Skip for
  a tag that is not empty, every later offer for that tag, whatever its name, notes and
  the answer that would be given, leaves the state as it is.
\<close>

theorem offerUpdate_skipped:
  "(should_skip p tag \<longrightarrow> offerUpdate env answer name tag notes p = p) \<and>
   (tag \<noteq> [] \<longrightarrow>
      offerUpdate env answer name tag notes (offerUpdate env Skip name' tag notes' p)
        = offerUpdate env Skip name' tag notes' p)"
proof
  show "should_skip p tag \<longrightarrow> offerUpdate env answer name tag notes p = p"
    by (simp add: offerUpdate_def)
next
  show "tag \<noteq> [] \<longrightarrow>
      offerUpdate env answer name tag notes (offerUpdate env Skip name' tag notes' p)
        = offerUpdate env Skip name' tag notes' p"
  proof
    assume "tag \<noteq> []"
    then have "should_skip (offerUpdate env Skip name' tag notes' p) tag"
      by (simp add: offerUpdate_def should_skip_mark_skipped)
    then show "offerUpdate env answer name tag notes (offerUpdate env Skip name' tag notes' p)
        = offerUpdate env Skip name' tag notes' p"
      by (simp add: offerUpdate_def)
  qed
qed

theorem offerUpdate_skipped_witness:
  "should_skip
     (example_priv\<lparr>settings := open_settings [''skip/v1.2.3'' \<mapsto> ''true'']\<rparr>) ''v1.2.3'' \<and>
   offerUpdate example_env Install ''1.2.3'' ''v1.2.3'' ''Fixed bugs.''
     (example_priv\<lparr>settings := open_settings [''skip/v1.2.3'' \<mapsto> ''true'']\<rparr>)
   = example_priv\<lparr>settings := open_settings [''skip/v1.2.3'' \<mapsto> ''true'']\<rparr> \<and>
   ''v1.2.3'' \<noteq> [] \<and>
   offerUpdate example_env Install ''1.2.3'' ''v1.2.3'' ''Fixed bugs.''
     (offerUpdate example_env Skip ''1.2.3'' ''v1.2.3'' ''Fixed bugs.'' example_priv)
   = offerUpdate example_env Skip ''1.2.3'' ''v1.2.3'' ''Fixed bugs.'' example_priv"
proof -
  have h: "should_skip
     (example_priv\<lparr>settings := open_settings [''skip/v1.2.3'' \<mapsto> ''true'']\<rparr>) ''v1.2.3''"
    by (simp add: should_skip_def settings_value_def open_settings_def actualKey_def
          to_lower_def)
  with offerUpdate_skipped
    [where p = "example_priv\<lparr>settings := open_settings [''skip/v1.2.3'' \<mapsto> ''true'']\<rparr>"
       and tag = "''v1.2.3''" and env = example_env and answer = Install
       and name = "''1.2.3''" and ?notes = "''Fixed bugs.''"]
    offerUpdate_skipped
    [where p = example_priv and tag = "''v1.2.3''" and env = example_env and answer = Install
       and name = "''1.2.3''" and ?notes = "''Fixed bugs.''" and name' = "''1.2.3''"
       and ?notes' = "''Fixed bugs.''"]
  show ?thesis by simp
qed

text \<open>
  C1 fails on the code. With no skip entry for \<open>v1.2.3\<close>, the operator answers Install:
  the updater is dispatched, the application is told to exit, and then the body of the
  Skip case runs as well, so that the skip entry of \<open>v1.2.3\<close> is set in the settings
  object and in the file.
\<close>

theorem offerUpdate_Install_marks_skipped:
  "\<not> should_skip example_priv ''v1.2.3'' \<and>
   events (offerUpdate example_env Install ''1.2.3'' ''v1.2.3'' ''Fixed bugs.'' example_priv) =
     [UpdateDialog ''8.0'' ''1.2.3'' ''Fixed bugs.'',
      StartDetached ''/app/prismlauncher_updater''
        [''--dir'', ''/data'', ''--install-version'', ''v1.2.3''],
      ApplicationExit] \<and>
   should_skip
     (offerUpdate example_env Install ''1.2.3'' ''v1.2.3'' ''Fixed bugs.'' example_priv) ''v1.2.3'' \<and>
   cache (settings
     (offerUpdate example_env Install ''1.2.3'' ''v1.2.3'' ''Fixed bugs.'' example_priv))
     ''skip/v1.2.3'' = Some (VBool True) \<and>
   ini (settings
     (offerUpdate example_env Install ''1.2.3'' ''v1.2.3'' ''Fixed bugs.'' example_priv))
     ''skip/v1.2.3'' = Some ''true''"
  by (simp add: offerUpdate_def should_skip_def example_priv_def example_env_def
        mark_skipped_def performUpdate_def sync_def setValue_def settings_value_def
        actualKey_def open_settings_def variantToString_def exe_name_def
        absoluteFilePath_def)

text \<open>
  The other two answers do what C1 says: Skip sets and persists the entry without
  starting the updater, and DontInstall writes nothing.
\<close>

lemma offerUpdate_Skip_DontInstall:
  assumes "\<not> should_skip p tag"
  shows "offerUpdate env Skip name tag notes p =
           mark_skipped env tag
             (p\<lparr>events := events p @ [UpdateDialog (printableVersionString env) name notes]\<rparr>)"
    and "offerUpdate env DontInstall name tag notes p =
           p\<lparr>events := events p @ [UpdateDialog (printableVersionString env) name notes]\<rparr>"
  using assms by (simp_all add: offerUpdate_def)

subsection \<open>One run of the check\<close>

text \<open>
  C2. Whatever the exit code, the output and the operator's answer, after
  \<open>checkForUpdates\<close> the last check is the current time, its ISO text is stored under
  \<open>last_check\<close>, and the file holds the text of every value of the settings object, that
  entry included. With exit code 0 no update dialog is added to the trace.
\<close>

theorem checkForUpdates_records_last_check:
  "lastCheck (checkForUpdates env pr answer now p) = Some now \<and>
   cache (settings (checkForUpdates env pr answer now p)) ''last_check''
     = Some (VString (toString_ISODate env now)) \<and>
   ini (settings (checkForUpdates env pr answer now p)) ''last_check''
     = Some (toString_ISODate env now) \<and>
   ini (settings (checkForUpdates env pr answer now p))
     = (\<lambda>k. map_option (variantToString env)
              (cache (settings (checkForUpdates env pr answer now p)) k)) \<and>
   filter is_offer (events (checkForUpdates env (pr\<lparr>exit_code := 0\<rparr>) answer now p))
     = filter is_offer (events p)"
  by (simp add: checkForUpdates_def Let_def sync_def setValue_def variantToString_def)

section \<open>Properties of double-precision rounding\<close>

text \<open>
  Integers of absolute value up to \<open>2 ^ 53\<close> are doubles, and rounding does not cross
  them: a real number that is at least such an integer rounds to at least that integer.
\<close>

lemma bit_length_bounds:
  "0 < n \<Longrightarrow> 2 ^ (bit_length n - 1) \<le> n \<and> n < 2 ^ bit_length n"
proof (induction n rule: bit_length.induct)
  case (1 n)
  show ?case
  proof (cases "n div 2 = 0")
    case True
    with "1.prems" have "n = 1" by (simp add: div_eq_0_iff) 
    then show ?thesis by (simp add: bit_length.simps [of "Suc 0"] bit_length.simps [of 0])
  next
    case False
    then have pos: "0 < n div 2" by simp
    from "1.prems" have n0: "n \<noteq> 0" by simp
    from "1.IH" [OF n0 pos]
    have ih: "2 ^ (bit_length (n div 2) - 1) \<le> n div 2" "n div 2 < 2 ^ bit_length (n div 2)"
      by simp_all
    have bl: "bit_length n = Suc (bit_length (n div 2))"
      using n0 by (subst bit_length.simps) simp
    have bpos: "0 < bit_length (n div 2)"
      using pos by (subst bit_length.simps) simp
    then have e: "bit_length (n div 2) = Suc (bit_length (n div 2) - 1)" by simp
    have "(2::nat) ^ bit_length (n div 2) = 2 * 2 ^ (bit_length (n div 2) - 1)"
      by (subst e) simp
    with ih have a: "2 ^ bit_length (n div 2) \<le> n" by linarith
    from ih have b: "n < 2 * 2 ^ bit_length (n div 2)" by linarith
    from a b bl show ?thesis by simp
  qed
qed

lemma round_half_even_of_int [simp]: "round_half_even (of_int z) = z"
  by (simp add: round_half_even_def)

lemma round_half_even_ge_floor: "\<lfloor>q\<rfloor> \<le> round_half_even q"
  by (simp add: round_half_even_def Let_def)

lemma round_half_even_mono_int:
  assumes "of_int z \<le> q"
  shows "z \<le> round_half_even q"
proof -
  from assms have "z \<le> \<lfloor>q\<rfloor>" by (simp add: le_floor_iff)
  with round_half_even_ge_floor [of q] show ?thesis by linarith
qed


lemma round_pos_of_int:
  assumes "1 \<le> k" and "k \<le> 2 ^ 53"
  shows "round_pos (of_int k) = of_int k"
proof -
  let ?n = "nat k"
  let ?b = "bit_length ?n"
  from assms have npos: "0 < ?n" by simp
  note bb = bit_length_bounds [OF npos]
  from assms have "?n \<le> 2 ^ 53" by (simp add: nat_le_iff)
  with bb have p: "(2::nat) ^ (?b - 1) \<le> 2 ^ 53" by linarith
  have "(1::nat) < 2" by simp
  from power_le_imp_le_exp [OF this p] have b54: "?b - 1 \<le> 53" .
  have fl: "nat \<lfloor>(of_int k :: real)\<rfloor> = ?n" by simp
  have one: "(1::real) \<le> of_int k" using assms by simp
  show ?thesis
  proof (cases "?b \<le> 53")
    case True
    have "(of_int k :: real) * 2 ^ (53 - ?b) = of_int (k * 2 ^ (53 - ?b))" by simp
    then have "round_half_even (of_int k * 2 ^ (53 - ?b)) = k * 2 ^ (53 - ?b)"
      by (simp only: round_half_even_of_int)
    with True one show ?thesis
      by (simp add: round_pos_def Let_def)
  next
    case False
    with b54 have b: "?b = 54" by simp
    with bb have "(2::nat) ^ 53 \<le> ?n" by simp
    with \<open>?n \<le> 2 ^ 53\<close> have "?n = 2 ^ 53" by simp
    with assms have k: "k = 2 ^ 53" by (simp add: nat_eq_iff)
    have rp: "round_pos (of_int k) = of_int (round_half_even (of_int k / 2 ^ 1)) * 2 ^ 1"
      using one b by (simp add: round_pos_def Let_def)
    have "(of_int k :: real) / 2 ^ 1 = of_int (2 ^ 52)"
      by (simp add: k)
    then have "round_half_even (of_int k / 2 ^ 1) = 2 ^ 52"
      by (simp only: round_half_even_of_int)
    with rp show ?thesis
      by (simp add: k)
  qed
qed

lemma round_pos_ge_int:
  assumes "1 \<le> K" and "K \<le> 2 ^ 53" and "of_int K \<le> x"
  shows "of_int K \<le> round_pos x"
proof -
  let ?n = "nat \<lfloor>x\<rfloor>"
  let ?b = "bit_length ?n"
  from assms have one: "1 \<le> x" by linarith
  then have npos: "0 < ?n" by simp
  note bb = bit_length_bounds [OF npos]
  show ?thesis
  proof (cases "?b \<le> 53")
    case True
    have "(of_int (K * 2 ^ (53 - ?b)) :: real) = of_int K * 2 ^ (53 - ?b)" by simp
    also have "\<dots> \<le> x * 2 ^ (53 - ?b)" using assms by simp
    finally have "K * 2 ^ (53 - ?b) \<le> round_half_even (x * 2 ^ (53 - ?b))"
      by (rule round_half_even_mono_int)
    then have "(of_int (K * 2 ^ (53 - ?b)) :: real) \<le> of_int (round_half_even (x * 2 ^ (53 - ?b)))"
      by (simp only: of_int_le_iff)
    then have "(of_int K :: real) * 2 ^ (53 - ?b) \<le> of_int (round_half_even (x * 2 ^ (53 - ?b)))"
      by simp
    then have "(of_int K :: real) \<le> of_int (round_half_even (x * 2 ^ (53 - ?b))) / 2 ^ (53 - ?b)"
      by (simp add: pos_le_divide_eq)
    with True one show ?thesis by (simp add: round_pos_def Let_def)
  next
    case False
    then have b: "53 < ?b" by simp
    from bb have "real (2 ^ (?b - 1)) \<le> real ?n" by (simp only: of_nat_le_iff)
    also have "real ?n \<le> x" using one by (simp add: of_nat_nat) 
    finally have lo: "2 ^ (?b - 1) \<le> x" by simp
    from b have e: "?b - 1 = 52 + (?b - 53)" by simp
    have "(2::real) ^ (?b - 1) = 2 ^ 52 * 2 ^ (?b - 53)"
      by (subst e) (simp only: power_add)
    with lo have "(2::real) ^ 52 * 2 ^ (?b - 53) \<le> x" by simp
    then have "(2::real) ^ 52 \<le> x / 2 ^ (?b - 53)"
      by (simp add: pos_le_divide_eq)
    then have "(of_int (2 ^ 52) :: real) \<le> x / 2 ^ (?b - 53)" by simp
    then have "2 ^ 52 \<le> round_half_even (x / 2 ^ (?b - 53))"
      by (rule round_half_even_mono_int)
    then have "(of_int (2 ^ 52) :: real) \<le> of_int (round_half_even (x / 2 ^ (?b - 53)))"
      by (simp only: of_int_le_iff)
    then have "(2::real) ^ 52 \<le> of_int (round_half_even (x / 2 ^ (?b - 53)))" by simp
    then have "(2::real) ^ 52 * 2 ^ (?b - 53)
                 \<le> of_int (round_half_even (x / 2 ^ (?b - 53))) * 2 ^ (?b - 53)"
      by (simp add: mult_right_mono)
    moreover have "(2::real) ^ 53 \<le> 2 ^ 52 * 2 ^ (?b - 53)"
    proof -
      from b have "1 \<le> ?b - 53" by simp
      then have "(2::real) ^ 1 \<le> 2 ^ (?b - 53)" by (rule power_increasing) simp
      then show ?thesis by simp
    qed
    moreover have "(of_int K :: real) \<le> 2 ^ 53"
    proof -
      from assms have "(of_int K :: real) \<le> of_int (2 ^ 53)" by (simp only: of_int_le_iff)
      then show ?thesis by simp
    qed
    ultimately have "(of_int K :: real) \<le> of_int (round_half_even (x / 2 ^ (?b - 53))) * 2 ^ (?b - 53)"
      by linarith
    with False one show ?thesis by (simp add: round_pos_def Let_def)
  qed
qed

lemma round_pos_nonneg:
  assumes "0 < x"
  shows "0 \<le> round_pos x"
proof -
  have r: "\<And>q. (0::real) \<le> q \<Longrightarrow> (0::real) \<le> of_int (round_half_even q)"
  proof -
    fix q :: real
    assume "0 \<le> q"
    then have "of_int 0 \<le> q" by simp
    then have "0 \<le> round_half_even q" by (rule round_half_even_mono_int)
    then show "(0::real) \<le> of_int (round_half_even q)" by simp
  qed
  from assms show ?thesis
    unfolding round_pos_def Let_def
    by (auto intro!: divide_nonneg_nonneg mult_nonneg_nonneg r)
qed

lemma rnd_of_int:
  assumes "\<bar>k\<bar> \<le> 2 ^ 53"
  shows "rnd (of_int k) = Fin (of_int k)"
proof (cases "k = 0")
  case True
  then show ?thesis by (simp add: rnd_def)
next
  case False
  then have "1 \<le> \<bar>k\<bar>" by simp
  from round_pos_of_int [OF this assms]
  have r: "round_pos \<bar>of_int k\<bar> = of_int \<bar>k\<bar>" by simp
  have "(of_int \<bar>k\<bar> :: real) \<le> of_int (2 ^ 53)" using assms by (simp only: of_int_le_iff)
  then have "(of_int \<bar>k\<bar> :: real) \<le> 2 ^ 53" by simp
  moreover have "(2::real) ^ 53 < 2 ^ 1024" by simp
  ultimately have lt: "\<not> (2::real) ^ 1024 \<le> of_int \<bar>k\<bar>" by linarith
  from False r lt show ?thesis
    by (cases "k < 0") (simp_all add: rnd_def Let_def)
qed

lemma rnd_ge_int:
  assumes "0 \<le> K" and "K \<le> 2 ^ 53" and "of_int K \<le> x"
  shows "rnd x = PInf \<or> (\<exists>y. rnd x = Fin y \<and> of_int K \<le> y)"
proof (cases "x = 0")
  case True
  with assms show ?thesis by (simp add: rnd_def)
next
  case False
  with assms have xpos: "0 < x" by simp
  have "of_int K \<le> round_pos x"
  proof (cases "K = 0")
    case True
    with round_pos_nonneg [OF xpos] show ?thesis by simp
  next
    case False
    with assms have "1 \<le> K" by simp
    from round_pos_ge_int [OF this assms(2) assms(3)] show ?thesis .
  qed
  with xpos show ?thesis
    by (simp add: rnd_def Let_def)
qed

lemma rnd_neg:
  assumes "x < 0"
  shows "rnd x = NInf \<or> (\<exists>y. rnd x = Fin y \<and> y \<le> 0)"
proof -
  from assms have "0 < \<bar>x\<bar>" by simp
  from round_pos_nonneg [OF this] assms show ?thesis
    by (simp add: rnd_def Let_def)
qed

section \<open>Properties of the scheduler\<close>

lemma secsTo_flip: "secsTo (Some a) (Some b) = - secsTo (Some b) (Some a)"
  by (simp add: secsTo_def sgn_if abs_minus_commute)

lemma secsTo_future: "now < lc \<Longrightarrow> 0 \<le> secsTo (Some now) (Some lc)"
  by (simp add: secsTo_def sgn_if)

lemma secsTo_whole: "0 < n \<Longrightarrow> secsTo (Some (now - 1000 * n)) (Some now) = n"
  by (simp add: secsTo_def sgn_if)

lemma double_of_int_exact: "\<bar>k\<bar> \<le> 2 ^ 53 \<Longrightarrow> double_of_int k = Fin (of_int k)"
  by (simp add: double_of_int_def rnd_of_int)

lemma rnd_0 [simp]: "rnd 0 = Fin 0"
  by (simp add: rnd_def)

lemma secs_left_not_negative: "\<not> dless0 (secs_left upd lc now)"
  by (simp add: secs_left_def Let_def dless0_def)

lemma timeoutDuration_None: "lastCheck p = None \<Longrightarrow> timeoutDuration p now = Inr 0"
  by (simp add: timeoutDuration_def)

text \<open>The clamped difference for a whole interval, by the sign and size of the exact difference.\<close>

lemma secs_left_whole_neg:
  assumes "\<bar>secsTo lc (Some now)\<bar> \<le> 2 ^ 53" and "n < secsTo lc (Some now)"
  shows "secs_left (Fin (of_int n)) lc now = Fin 0"
proof -
  let ?d = "secsTo lc (Some now)"
  have "(of_int n :: real) - of_int ?d < 0" using assms(2) by simp
  from rnd_neg [OF this]
  show ?thesis
    by (auto simp: secs_left_def Let_def double_of_int_exact [OF assms(1)] dless0_def)
qed

lemma secs_left_whole_exact:
  assumes "\<bar>secsTo lc (Some now)\<bar> \<le> 2 ^ 53" and "secsTo lc (Some now) \<le> n"
    and "n - secsTo lc (Some now) \<le> 2 ^ 53"
  shows "secs_left (Fin (of_int n)) lc now = Fin (of_int (n - secsTo lc (Some now)))"
proof -
  let ?d = "secsTo lc (Some now)"
  from assms have "\<bar>n - ?d\<bar> \<le> 2 ^ 53" by simp
  from rnd_of_int [OF this] have "rnd (of_int n - of_int ?d) = Fin (of_int (n - ?d))" by simp
  with assms(2) show ?thesis
    by (simp add: secs_left_def Let_def double_of_int_exact [OF assms(1)] dless0_def)
qed

lemma secs_left_whole_ge:
  assumes "\<bar>secsTo lc (Some now)\<bar> \<le> 2 ^ 53" and "0 \<le> K" and "K \<le> 2 ^ 53"
    and "K \<le> n - secsTo lc (Some now)"
  shows "secs_left (Fin (of_int n)) lc now = PInf
         \<or> (\<exists>y. secs_left (Fin (of_int n)) lc now = Fin y \<and> of_int K \<le> y)"
proof -
  let ?d = "secsTo lc (Some now)"
  from assms(4) have "(of_int K :: real) \<le> of_int (n - ?d)" by (simp only: of_int_le_iff)
  then have "(of_int K :: real) \<le> of_int n - of_int ?d" by simp
  from rnd_ge_int [OF assms(2) assms(3) this] assms(2)
  show ?thesis
    by (auto simp: secs_left_def Let_def double_of_int_exact [OF assms(1)] dless0_def)
qed

lemma double_to_int_of_int:
  "double_to_int (Fin (of_int m)) = (if in_int_range m then Inr m else Inl UndefinedConversion)"
  by (simp add: double_to_int_def)

lemma timeoutDuration_whole:
  assumes lc: "lastCheck p = Some lc" and upd: "updateInterval p = Fin (of_int n)"
    and d: "\<bar>secsTo (Some lc) (Some now)\<bar> \<le> 2 ^ 53"
  shows "timeoutDuration p now =
           (if in_int_range (1000 * max 0 (n - secsTo (Some lc) (Some now)))
            then Inr (1000 * max 0 (n - secsTo (Some lc) (Some now)))
            else Inl UndefinedConversion)"
proof -
  let ?d = "secsTo (Some lc) (Some now)"
  consider (neg) "n < ?d" | (fit) "?d \<le> n" "n - ?d \<le> 2147483" | (big) "2147484 \<le> n - ?d"
    by linarith
  then show ?thesis
  proof cases
    case neg
    from secs_left_whole_neg [OF d neg] neg show ?thesis
      by (simp add: timeoutDuration_def lc upd double_to_int_def in_int_range_def)
  next
    case fit
    then have "n - ?d \<le> 2 ^ 53" by simp
    from secs_left_whole_exact [OF d fit(1) this]
    have s: "secs_left (Fin (of_int n)) (Some lc) now = Fin (of_int (n - ?d))" .
    from fit have "\<bar>(n - ?d) * 1000\<bar> \<le> 2 ^ 53" by simp
    from rnd_of_int [OF this]
    have pr: "dmul (Fin (of_int (n - ?d))) (Fin 1000) = Fin (of_int ((n - ?d) * 1000))"
      by simp
    have mx: "1000 * max 0 (n - ?d) = (n - ?d) * 1000"
      using fit by (simp add: max_def)
    show ?thesis
      unfolding timeoutDuration_def lc upd s pr mx
      by (simp only: double_to_int_of_int option.distinct not_False_eq_True if_True)
  next
    case big
    have out: "\<not> in_int_range (1000 * max 0 (n - ?d))"
      using big by (simp add: in_int_range_def max_def)
    have k: "(0::int) \<le> 2147484" "(2147484::int) \<le> 2 ^ 53" by simp_all
    from secs_left_whole_ge [OF d k big]
    have "double_to_int (dmul (secs_left (Fin (of_int n)) (Some lc) now) (Fin 1000))
            = Inl UndefinedConversion"
    proof
      assume "secs_left (Fin (of_int n)) (Some lc) now = PInf"
      then show ?thesis by (simp add: double_to_int_def dless0_def)
    next
      assume "\<exists>y. secs_left (Fin (of_int n)) (Some lc) now = Fin y \<and> of_int 2147484 \<le> y"
      then obtain y where y: "secs_left (Fin (of_int n)) (Some lc) now = Fin y"
        and yk: "of_int 2147484 \<le> y" by blast
      have k2: "(0::int) \<le> 2147484000" "(2147484000::int) \<le> 2 ^ 53" by simp_all
      from yk have "(of_int 2147484000 :: real) \<le> y * 1000" by simp
      from rnd_ge_int [OF k2 this]
      show ?thesis
      proof
        assume "rnd (y * 1000) = PInf"
        with y show ?thesis by (simp add: double_to_int_def)
      next
        assume "\<exists>z. rnd (y * 1000) = Fin z \<and> of_int 2147484000 \<le> z"
        then obtain z where z: "rnd (y * 1000) = Fin z" and zk: "of_int 2147484000 \<le> z"
          by blast
        from zk have "2147484000 \<le> \<lfloor>z\<rfloor>" by (simp add: le_floor_iff)
        with zk y z show ?thesis
          by (simp add: double_to_int_def Let_def in_int_range_def)
      qed
    qed
    with out show ?thesis
      by (simp add: timeoutDuration_def lc upd)
  qed
qed

lemma timeoutDuration_not_negative:
  "timeoutDuration p now = Inl UndefinedConversion
   \<or> (\<exists>m. timeoutDuration p now = Inr m \<and> 0 \<le> m)"
proof (cases "lastCheck p")
  case None
  then show ?thesis by (simp add: timeoutDuration_None)
next
  case (Some lc)
  let ?s = "secs_left (updateInterval p) (Some lc) now"
  have nn: "\<not> dless0 ?s" by (rule secs_left_not_negative)
  have "double_to_int (dmul ?s (Fin 1000)) = Inl UndefinedConversion
        \<or> (\<exists>m. double_to_int (dmul ?s (Fin 1000)) = Inr m \<and> 0 \<le> m)"
  proof (cases ?s)
    case (Fin y)
    with nn have y0: "0 \<le> y" by (simp add: dless0_def)
    then have "(of_int 0 :: real) \<le> y * 1000" by simp
    from rnd_ge_int [OF _ _ this]
    have "rnd (y * 1000) = PInf \<or> (\<exists>z. rnd (y * 1000) = Fin z \<and> 0 \<le> z)" by simp
    then show ?thesis
    proof
      assume "rnd (y * 1000) = PInf"
      with Fin show ?thesis by (simp add: double_to_int_def)
    next
      assume "\<exists>z. rnd (y * 1000) = Fin z \<and> 0 \<le> z"
      then obtain z where z: "rnd (y * 1000) = Fin z" and z0: "0 \<le> z" by blast
      with Fin show ?thesis
        by (simp add: double_to_int_def Let_def)
    qed
  next
    case PInf
    then show ?thesis by (simp add: double_to_int_def dless0_def)
  next
    case NInf
    with nn show ?thesis by (simp add: dless0_def)
  next
    case NaN
    then show ?thesis by (simp add: double_to_int_def)
  qed
  with Some show ?thesis by (simp add: timeoutDuration_def)
qed

text \<open>The equations that evaluate the rounding on numerals.\<close>

lemmas bit_length_numeral =
  bit_length.simps [of "numeral n" for n] bit_length.simps [of 0] bit_length.simps [of 1]
  bit_length.simps [of "Suc 0"]

lemmas double_eval = rnd_def round_pos_def round_half_even_def bit_length_numeral Let_def
  dless0_def double_of_int_def double_to_int_def in_int_range_def

text \<open>
  C5, as the code has it. With auto-check off, a running timer is stopped and no timer is
  started. With auto-check on and no valid last check, the timer is started with 0
  milliseconds. With auto-check on and a valid last check, the timer is started with the
  \<open>int\<close> to which the code converts the double \<open>secs_left * 1000\<close>, where \<open>secs_left\<close> is the
  double \<open>updateInterval - secsTo lastCheck now\<close>, replaced by 0 when it is negative; the
  conversion is undefined when the product does not fit an \<open>int\<close>. For an interval of \<open>n\<close>
  whole seconds and a last check within \<open>2 ^ 53\<close> seconds of now nothing is rounded: the
  timer is started with \<open>1000 * max 0 (n - secsTo lastCheck now)\<close> milliseconds when that
  number fits an \<open>int\<close>, and the conversion is undefined when it does not.
\<close>

theorem resetAutoCheckTimer_delay:
  "(\<not> autoCheck p \<longrightarrow>
      resetAutoCheckTimer now p =
        Inr (if isActive (updateTimer p)
             then p\<lparr>updateTimer := (updateTimer p)\<lparr>isActive := False\<rparr>,
                    events := events p @ [TimerStop]\<rparr>
             else p)) \<and>
   (autoCheck p \<and> lastCheck p = None \<longrightarrow>
      resetAutoCheckTimer now p =
        Inr (p\<lparr>updateTimer := (updateTimer p)\<lparr>isActive := True, interval := 0\<rparr>,
               events := events p @ [TimerStart 0]\<rparr>)) \<and>
   (autoCheck p \<and> lastCheck p = Some lc \<longrightarrow>
      resetAutoCheckTimer now p =
        (case double_to_int (dmul (secs_left (updateInterval p) (Some lc) now) (Fin 1000)) of
           Inl e \<Rightarrow> Inl e
         | Inr msec \<Rightarrow>
             Inr (p\<lparr>updateTimer := (updateTimer p)\<lparr>isActive := True, interval := msec\<rparr>,
                    events := events p @ [TimerStart msec]\<rparr>))) \<and>
   (autoCheck p \<and> lastCheck p = Some lc \<and> updateInterval p = Fin (of_int n) \<and>
    \<bar>secsTo (Some lc) (Some now)\<bar> \<le> 2 ^ 53 \<and>
    msec = 1000 * max 0 (n - secsTo (Some lc) (Some now)) \<longrightarrow>
      resetAutoCheckTimer now p =
        (if in_int_range msec
         then Inr (p\<lparr>updateTimer := (updateTimer p)\<lparr>isActive := True, interval := msec\<rparr>,
                     events := events p @ [TimerStart msec]\<rparr>)
         else Inl UndefinedConversion))"
proof -
  have a: "\<not> autoCheck p \<longrightarrow>
      resetAutoCheckTimer now p =
        Inr (if isActive (updateTimer p)
             then p\<lparr>updateTimer := (updateTimer p)\<lparr>isActive := False\<rparr>,
                    events := events p @ [TimerStop]\<rparr>
             else p)"
    by (simp add: resetAutoCheckTimer_def timer_stop_def)
  have b: "autoCheck p \<and> lastCheck p = None \<longrightarrow>
      resetAutoCheckTimer now p =
        Inr (p\<lparr>updateTimer := (updateTimer p)\<lparr>isActive := True, interval := 0\<rparr>,
               events := events p @ [TimerStart 0]\<rparr>)"
    by (simp add: resetAutoCheckTimer_def timeoutDuration_None timer_start_def)
  have c: "autoCheck p \<and> lastCheck p = Some lc \<longrightarrow>
      resetAutoCheckTimer now p =
        (case double_to_int (dmul (secs_left (updateInterval p) (Some lc) now) (Fin 1000)) of
           Inl e \<Rightarrow> Inl e
         | Inr msec \<Rightarrow>
             Inr (p\<lparr>updateTimer := (updateTimer p)\<lparr>isActive := True, interval := msec\<rparr>,
                    events := events p @ [TimerStart msec]\<rparr>))"
    by (simp add: resetAutoCheckTimer_def timeoutDuration_def timer_start_def
          split: sum.split)
  have d: "autoCheck p \<and> lastCheck p = Some lc \<and> updateInterval p = Fin (of_int n) \<and>
    \<bar>secsTo (Some lc) (Some now)\<bar> \<le> 2 ^ 53 \<and>
    msec = 1000 * max 0 (n - secsTo (Some lc) (Some now)) \<longrightarrow>
      resetAutoCheckTimer now p =
        (if in_int_range msec
         then Inr (p\<lparr>updateTimer := (updateTimer p)\<lparr>isActive := True, interval := msec\<rparr>,
                     events := events p @ [TimerStart msec]\<rparr>)
         else Inl UndefinedConversion)"
  proof
    assume h: "autoCheck p \<and> lastCheck p = Some lc \<and> updateInterval p = Fin (of_int n) \<and>
      \<bar>secsTo (Some lc) (Some now)\<bar> \<le> 2 ^ 53 \<and>
      msec = 1000 * max 0 (n - secsTo (Some lc) (Some now))"
    then have "timeoutDuration p now =
        (if in_int_range msec then Inr msec else Inl UndefinedConversion)"
      using timeoutDuration_whole [of p lc n now] by simp
    with h show "resetAutoCheckTimer now p =
        (if in_int_range msec
         then Inr (p\<lparr>updateTimer := (updateTimer p)\<lparr>isActive := True, interval := msec\<rparr>,
                     events := events p @ [TimerStart msec]\<rparr>)
         else Inl UndefinedConversion)"
      by (simp add: resetAutoCheckTimer_def timer_start_def)
  qed
  from a b c d show ?thesis by blast
qed

text \<open>
  The double nearest to 0.009, and its product with 1000: the exact product lies below 9,
  the double product is 9.
\<close>

lemma rnd_nine_thousandths:
  "rnd (9 / 1000) = Fin (5188146770730811 / 2 ^ 59)"
  "(5188146770730811 / 2 ^ 59 * 1000 :: real) < 9"
  "dmul (Fin (5188146770730811 / 2 ^ 59)) (Fin 1000) = Fin 9"
  by (simp_all add: double_eval)

text \<open>
  The four cases at work: a running timer stopped; a first start with 0 milliseconds; an
  interval of 0.009 seconds with a check just recorded, where the timer is started with
  9 milliseconds; and the default interval 1000 seconds after a check.
\<close>

theorem resetAutoCheckTimer_delay_witness:
  "\<not> autoCheck (example_priv\<lparr>updateTimer := \<lparr>isActive = True, interval = 5\<rparr>\<rparr>) \<and>
   resetAutoCheckTimer 1000000 (example_priv\<lparr>updateTimer := \<lparr>isActive = True, interval = 5\<rparr>\<rparr>) =
     Inr (example_priv\<lparr>updateTimer := \<lparr>isActive = False, interval = 5\<rparr>,
            events := [TimerStop]\<rparr>) \<and>
   autoCheck (example_priv\<lparr>autoCheck := True\<rparr>) \<and>
   lastCheck (example_priv\<lparr>autoCheck := True\<rparr>) = None \<and>
   resetAutoCheckTimer 1000000 (example_priv\<lparr>autoCheck := True\<rparr>) =
     Inr (example_priv\<lparr>autoCheck := True, updateTimer := \<lparr>isActive = True, interval = 0\<rparr>,
            events := [TimerStart 0]\<rparr>) \<and>
   double_to_int (dmul (secs_left (Fin (5188146770730811 / 2 ^ 59)) (Some 0) 0) (Fin 1000))
     = Inr 9 \<and>
   resetAutoCheckTimer 0
     (example_priv\<lparr>autoCheck := True, updateInterval := Fin (5188146770730811 / 2 ^ 59),
        lastCheck := Some 0\<rparr>) =
     Inr (example_priv\<lparr>autoCheck := True, updateInterval := Fin (5188146770730811 / 2 ^ 59),
            lastCheck := Some 0, updateTimer := \<lparr>isActive = True, interval = 9\<rparr>,
            events := [TimerStart 9]\<rparr>) \<and>
   updateInterval (example_priv\<lparr>autoCheck := True, lastCheck := Some 0\<rparr>) = Fin (of_int 86400) \<and>
   \<bar>secsTo (Some 0) (Some 1000000)\<bar> \<le> 2 ^ 53 \<and>
   (85400000 :: int) = 1000 * max 0 (86400 - secsTo (Some 0) (Some 1000000)) \<and>
   in_int_range 85400000 \<and>
   resetAutoCheckTimer 1000000 (example_priv\<lparr>autoCheck := True, lastCheck := Some 0\<rparr>) =
     Inr (example_priv\<lparr>autoCheck := True, lastCheck := Some 0,
            updateTimer := \<lparr>isActive = True, interval = 85400000\<rparr>,
            events := [TimerStart 85400000]\<rparr>)"
proof -
  have e: "double_to_int (dmul (secs_left (Fin (5188146770730811 / 2 ^ 59)) (Some 0) 0) (Fin 1000))
     = Inr 9"
    by (simp add: secs_left_def secsTo_def double_eval)
  have s: "secsTo (Some 0) (Some 1000000) = 1000" by (simp add: secsTo_def)
  from resetAutoCheckTimer_delay
    [of "example_priv\<lparr>updateTimer := \<lparr>isActive = True, interval = 5\<rparr>\<rparr>" 1000000]
    resetAutoCheckTimer_delay [of "example_priv\<lparr>autoCheck := True\<rparr>" 1000000]
    resetAutoCheckTimer_delay
    [of "example_priv\<lparr>autoCheck := True, updateInterval := Fin (5188146770730811 / 2 ^ 59),
        lastCheck := Some 0\<rparr>" 0 0 0 0]
    resetAutoCheckTimer_delay
    [of "example_priv\<lparr>autoCheck := True, lastCheck := Some 0\<rparr>" 1000000 0 86400 85400000]
    e s
  show ?thesis by (simp add: example_priv_def secs_left_def double_eval)
qed

text \<open>
  C5 as stated fails for a long interval and for a short one. With an interval of
  2200000 seconds and a check recorded just now, the delay of the claim is 2200000
  seconds; its milliseconds do not fit the \<open>int\<close> the timer takes, and no timer is
  started. With an interval of \<open>1 / 2048\<close> of a second the delay of the claim is not 0,
  and the timer is started with 0 milliseconds.
\<close>

theorem resetAutoCheckTimer_delay_counterexample:
  "max 0 (2200000 - real_of_int (secsTo (Some 0) (Some 0))) = 2200000 \<and>
   \<not> in_int_range (1000 * 2200000) \<and>
   resetAutoCheckTimer 0
     (example_priv\<lparr>autoCheck := True, updateInterval := Fin 2200000, lastCheck := Some 0\<rparr>)
     = Inl UndefinedConversion \<and>
   is_double (1 / 2048) \<and>
   max 0 (1 / 2048 - real_of_int (secsTo (Some 0) (Some 0))) \<noteq> 0 \<and>
   resetAutoCheckTimer 0
     (example_priv\<lparr>autoCheck := True, updateInterval := Fin (1 / 2048), lastCheck := Some 0\<rparr>)
     = Inr (example_priv\<lparr>autoCheck := True, updateInterval := Fin (1 / 2048), lastCheck := Some 0,
              updateTimer := \<lparr>isActive = True, interval = 0\<rparr>, events := [TimerStart 0]\<rparr>)"
  by (simp add: resetAutoCheckTimer_def timeoutDuration_def secs_left_def secsTo_def
        is_double_def double_eval example_priv_def timer_start_def)

text \<open>
  C6, as the code has it. The seconds left are never negative, and the scheduler computes
  no negative timer delay: the conversion to \<open>int\<close> is undefined or gives a number that is
  not negative. When the last check lies in the future, the interval is \<open>n \<ge> 0\<close> whole
  seconds and \<open>n\<close> plus the whole seconds of skew is at most \<open>2 ^ 53\<close>, the seconds left are
  that sum, and the timer delay is 1000 times the sum when this is at most 2147483647;
  the conversion is undefined when it is more. For an interval of \<open>k > 0\<close> whole seconds
  and a last check exactly \<open>k\<close> seconds ago, the seconds left and the timer delay are 0.
\<close>

theorem resetAutoCheckTimer_skew_and_elapsed:
  "\<not> dless0 (secs_left upd last_check now) \<and>
   (timeoutDuration p now = Inl UndefinedConversion
      \<or> (\<exists>m. timeoutDuration p now = Inr m \<and> 0 \<le> m)) \<and>
   (now < lc \<and> 0 \<le> n \<and> skew = secsTo (Some now) (Some lc) \<and> n + skew \<le> 2 ^ 53 \<longrightarrow>
      secs_left (Fin (of_int n)) (Some lc) now = Fin (of_int (n + skew))) \<and>
   (now < lc \<and> 0 \<le> n \<and> skew = secsTo (Some now) (Some lc) \<and> n + skew \<le> 2 ^ 53 \<and>
    lastCheck q = Some lc \<and> updateInterval q = Fin (of_int n) \<longrightarrow>
      timeoutDuration q now =
        (if 1000 * (n + skew) \<le> 2147483647 then Inr (1000 * (n + skew))
         else Inl UndefinedConversion)) \<and>
   (0 < k \<and> is_double (of_int k) \<longrightarrow>
      secs_left (Fin (of_int k)) (Some (now - 1000 * k)) now = Fin 0) \<and>
   (0 < k \<and> is_double (of_int k) \<and> updateInterval r = Fin (of_int k) \<and>
    lastCheck r = Some (now - 1000 * k) \<longrightarrow>
      timeoutDuration r now = Inr 0)"
proof -
  have a: "\<not> dless0 (secs_left upd last_check now)"
    by (rule secs_left_not_negative)
  have b: "timeoutDuration p now = Inl UndefinedConversion
      \<or> (\<exists>m. timeoutDuration p now = Inr m \<and> 0 \<le> m)"
    by (rule timeoutDuration_not_negative)
  have c: "secs_left (Fin (of_int n)) (Some lc) now = Fin (of_int (n + skew))"
    and c': "lastCheck q = Some lc \<and> updateInterval q = Fin (of_int n) \<longrightarrow>
      timeoutDuration q now =
        (if 1000 * (n + skew) \<le> 2147483647 then Inr (1000 * (n + skew))
         else Inl UndefinedConversion)"
    if h: "now < lc \<and> 0 \<le> n \<and> skew = secsTo (Some now) (Some lc) \<and> n + skew \<le> 2 ^ 53"
  proof -
    from h secsTo_future [of now lc] have s0: "0 \<le> skew" by simp
    from h secsTo_flip [of lc now] have d: "secsTo (Some lc) (Some now) = - skew" by simp
    from s0 h have bd: "\<bar>secsTo (Some lc) (Some now)\<bar> \<le> 2 ^ 53" by (simp add: d)
    from s0 h have le: "secsTo (Some lc) (Some now) \<le> n" by (simp add: d)
    from h have sm: "n - secsTo (Some lc) (Some now) \<le> 2 ^ 53" by (simp add: d)
    from secs_left_whole_exact [OF bd le sm]
    show "secs_left (Fin (of_int n)) (Some lc) now = Fin (of_int (n + skew))"
      by (simp add: d)
    show "lastCheck q = Some lc \<and> updateInterval q = Fin (of_int n) \<longrightarrow>
      timeoutDuration q now =
        (if 1000 * (n + skew) \<le> 2147483647 then Inr (1000 * (n + skew))
         else Inl UndefinedConversion)"
    proof
      assume q: "lastCheck q = Some lc \<and> updateInterval q = Fin (of_int n)"
      from s0 h have mx: "max 0 (n - secsTo (Some lc) (Some now)) = n + skew"
        by (simp add: d max_def)
      from s0 h have r: "in_int_range (1000 * (n + skew)) \<longleftrightarrow> 1000 * (n + skew) \<le> 2147483647"
        by (simp add: in_int_range_def)
      from timeoutDuration_whole [of q lc n now] q bd
      show "timeoutDuration q now =
        (if 1000 * (n + skew) \<le> 2147483647 then Inr (1000 * (n + skew))
         else Inl UndefinedConversion)"
        by (simp only: mx r)
    qed
  qed
  have e: "secs_left (Fin (of_int k)) (Some (now - 1000 * k)) now = Fin 0"
    if h: "0 < k \<and> is_double (of_int k)"
    using h by (simp add: secs_left_def Let_def secsTo_whole double_of_int_def is_double_def
                  dless0_def)
  have e': "timeoutDuration r now = Inr 0"
    if h: "0 < k \<and> is_double (of_int k) \<and> updateInterval r = Fin (of_int k) \<and>
           lastCheck r = Some (now - 1000 * k)"
  proof -
    from h e have "secs_left (Fin (of_int k)) (Some (now - 1000 * k)) now = Fin 0" by simp
    with h show ?thesis
      by (simp add: timeoutDuration_def double_to_int_def in_int_range_def)
  qed
  from a b c c' e e' show ?thesis by blast
qed

text \<open>
  A last check 100 seconds ahead with the default interval, and a last check exactly one
  default interval ago.
\<close>

theorem resetAutoCheckTimer_skew_and_elapsed_witness:
  "(86400000 :: int) < 86500000 \<and> (0 :: int) \<le> 86400 \<and>
   (100 :: int) = secsTo (Some 86400000) (Some 86500000) \<and> (86400 + 100 :: int) \<le> 2 ^ 53 \<and>
   secs_left (Fin (of_int 86400)) (Some 86500000) 86400000 = Fin (of_int 86500) \<and>
   lastCheck (example_priv\<lparr>lastCheck := Some 86500000\<rparr>) = Some 86500000 \<and>
   updateInterval (example_priv\<lparr>lastCheck := Some 86500000\<rparr>) = Fin (of_int 86400) \<and>
   timeoutDuration (example_priv\<lparr>lastCheck := Some 86500000\<rparr>) 86400000 = Inr 86500000 \<and>
   (0 :: int) < 86400 \<and> is_double (of_int 86400) \<and>
   updateInterval (example_priv\<lparr>lastCheck := Some 0\<rparr>) = Fin (of_int 86400) \<and>
   lastCheck (example_priv\<lparr>lastCheck := Some 0\<rparr>) = Some (86400000 - 1000 * 86400) \<and>
   secs_left (Fin (of_int 86400)) (Some 0) 86400000 = Fin 0 \<and>
   timeoutDuration (example_priv\<lparr>lastCheck := Some 0\<rparr>) 86400000 = Inr 0"
proof -
  have s: "secsTo (Some 86400000) (Some 86500000) = 100" by (simp add: secsTo_def)
  have d: "is_double (of_int 86400)" by (simp add: is_double_def double_eval)
  from resetAutoCheckTimer_skew_and_elapsed
    [where now = 86400000 and lc = 86500000 and n = 86400 and skew = 100
       and q = "example_priv\<lparr>lastCheck := Some 86500000\<rparr>" and k = 86400
       and r = "example_priv\<lparr>lastCheck := Some 0\<rparr>"]
    s d
  show ?thesis by (simp add: example_priv_def)
qed

text \<open>
  C6 as stated fails. A last check 100 seconds in the future with an interval of 86400
  seconds gives a delay of 86500 seconds, not 0. A last check 30 days in the future gives
  milliseconds that do not fit the \<open>int\<close> the timer takes. An interval of half a second
  with a last check exactly half a second ago gives a delay of 500 milliseconds, not 0.
\<close>

theorem resetAutoCheckTimer_skew_counterexample:
  "secs_left (Fin 86400) (Some 100000) 0 = Fin 86500 \<and>
   resetAutoCheckTimer 0
     (example_priv\<lparr>autoCheck := True, updateInterval := Fin 86400, lastCheck := Some 100000\<rparr>)
     = Inr (example_priv\<lparr>autoCheck := True, updateInterval := Fin 86400, lastCheck := Some 100000,
              updateTimer := \<lparr>isActive = True, interval = 86500000\<rparr>,
              events := [TimerStart 86500000]\<rparr>) \<and>
   resetAutoCheckTimer 0
     (example_priv\<lparr>autoCheck := True, updateInterval := Fin 86400,
        lastCheck := Some 2592000000\<rparr>)
     = Inl UndefinedConversion \<and>
   secs_left (Fin (1 / 2)) (Some 0) 500 = Fin (1 / 2) \<and>
   resetAutoCheckTimer 500
     (example_priv\<lparr>autoCheck := True, updateInterval := Fin (1 / 2), lastCheck := Some 0\<rparr>)
     = Inr (example_priv\<lparr>autoCheck := True, updateInterval := Fin (1 / 2), lastCheck := Some 0,
              updateTimer := \<lparr>isActive = True, interval = 500\<rparr>,
              events := [TimerStart 500]\<rparr>)"
  by (simp add: resetAutoCheckTimer_def timeoutDuration_def secs_left_def secsTo_def
        double_eval example_priv_def timer_start_def)

section \<open>Properties of the preference setters\<close>

lemma timeoutDuration_cong:
  "lastCheck p' = lastCheck p \<Longrightarrow> updateInterval p' = updateInterval p \<Longrightarrow>
   timeoutDuration p' now = timeoutDuration p now"
  by (simp add: timeoutDuration_def)

lemma resetAutoCheckTimer_result:
  assumes "autoCheck p \<longrightarrow> timeoutDuration p now = Inr msec"
  shows "\<exists>q. resetAutoCheckTimer now p = Inr q \<and>
           autoCheck q = autoCheck p \<and> allowBeta q = allowBeta p \<and>
           updateInterval q = updateInterval p \<and> lastCheck q = lastCheck p \<and>
           settings q = settings p \<and>
           isActive (updateTimer q) = autoCheck p \<and>
           (autoCheck p \<longrightarrow> interval (updateTimer q) = msec \<and>
              events q = events p @ [TimerStart msec])"
  using assms
  by (auto simp: resetAutoCheckTimer_def timer_start_def timer_stop_def)

lemma toBool_stored_bool: "toBool (VString (if b then ''true'' else ''false'')) = b"
  by (simp add: to_lower_def)

lemma setAutomaticallyChecksForUpdates_persists:
  assumes h: "check \<longrightarrow> timeoutDuration p now = Inr msec"
  shows "\<exists>p1. setAutomaticallyChecksForUpdates env now check p = Inr p1 \<and>
            autoCheck p1 = check \<and>
            cache (settings p1) ''auto_check'' = Some (VBool check) \<and>
            ini (settings p1) ''auto_check'' = Some (if check then ''true'' else ''false'') \<and>
            isActive (updateTimer p1) = check \<and>
            (check \<longrightarrow> interval (updateTimer p1) = msec \<and>
               events p1 = events p @ [TimerStart msec]) \<and>
            autoCheck (read_settings env a d (ini (settings p1))) = check"
proof -
  let ?p = "p\<lparr>autoCheck := check,
        settings := sync env (setValue [] ''auto_check'' (VBool check) (settings p))\<rparr>"
  have t: "timeoutDuration ?p now = timeoutDuration p now"
    by (rule timeoutDuration_cong) simp_all
  have "autoCheck ?p \<longrightarrow> timeoutDuration ?p now = Inr msec"
    using h t by (cases check) simp_all
  from resetAutoCheckTimer_result [OF this]
  obtain p1 where r: "resetAutoCheckTimer now ?p = Inr p1"
    and f: "autoCheck p1 = autoCheck ?p" "settings p1 = settings ?p"
    and tm: "isActive (updateTimer p1) = autoCheck ?p"
      "autoCheck ?p \<longrightarrow> interval (updateTimer p1) = msec \<and> events p1 = events ?p @ [TimerStart msec]"
    by blast
  from f(1) have f1: "autoCheck p1 = check" by simp
  from tm(1) have t1: "isActive (updateTimer p1) = check" by simp
  from tm(2) have t2: "check \<longrightarrow> interval (updateTimer p1) = msec \<and>
               events p1 = events p @ [TimerStart msec]" by simp
  from f(2) have i: "ini (settings p1) ''auto_check'' = Some (if check then ''true'' else ''false'')"
    by (simp add: sync_def setValue_def variantToString_def actualKey_def)
  from f(2) have c: "cache (settings p1) ''auto_check'' = Some (VBool check)"
    by (simp add: sync_def setValue_def actualKey_def)
  from i toBool_stored_bool [of check]
  have rb: "autoCheck (read_settings env a d (ini (settings p1))) = check"
    by (simp add: read_settings_def settings_value_def open_settings_def actualKey_def
          Let_def)
  have "setAutomaticallyChecksForUpdates env now check p = Inr p1"
    using r by (simp add: setAutomaticallyChecksForUpdates_def)
  then show ?thesis
    using f1 c i t1 t2 rb by (intro exI [of _ p1] conjI) assumption+
qed

lemma setUpdateCheckInterval_persists:
  assumes h: "autoCheck p \<longrightarrow> timeoutDuration (p\<lparr>updateInterval := seconds\<rparr>) now = Inr msec"
  shows "\<exists>p2. setUpdateCheckInterval env now seconds p = Inr p2 \<and>
            updateInterval p2 = seconds \<and>
            cache (settings p2) ''update_interval'' = Some (VDouble seconds) \<and>
            ini (settings p2) ''update_interval'' = Some (number_g env seconds) \<and>
            isActive (updateTimer p2) = autoCheck p \<and>
            (autoCheck p \<longrightarrow> interval (updateTimer p2) = msec \<and>
               events p2 = events p @ [TimerStart msec]) \<and>
            (QString_toInt (number_g env seconds) = (n, True) \<and> seconds = double_of_int n \<longrightarrow>
               updateInterval (read_settings env a d (ini (settings p2))) = seconds)"
proof -
  let ?p = "p\<lparr>updateInterval := seconds,
        settings := sync env (setValue [] ''update_interval'' (VDouble seconds) (settings p))\<rparr>"
  have t: "timeoutDuration ?p now = timeoutDuration (p\<lparr>updateInterval := seconds\<rparr>) now"
    by (rule timeoutDuration_cong) simp_all
  have "autoCheck ?p \<longrightarrow> timeoutDuration ?p now = Inr msec"
    using h t by (cases "autoCheck p") simp_all
  from resetAutoCheckTimer_result [OF this]
  obtain p2 where r: "resetAutoCheckTimer now ?p = Inr p2"
    and f: "updateInterval p2 = updateInterval ?p" "settings p2 = settings ?p"
    and tm: "isActive (updateTimer p2) = autoCheck ?p"
      "autoCheck ?p \<longrightarrow> interval (updateTimer p2) = msec \<and> events p2 = events ?p @ [TimerStart msec]"
    by blast
  from f(1) have f1: "updateInterval p2 = seconds" by simp
  from tm(1) have t1: "isActive (updateTimer p2) = autoCheck p" by simp
  from tm(2) have t2: "autoCheck p \<longrightarrow> interval (updateTimer p2) = msec \<and>
               events p2 = events p @ [TimerStart msec]" by simp
  from f(2) have i: "ini (settings p2) ''update_interval'' = Some (number_g env seconds)"
    by (simp add: sync_def setValue_def variantToString_def actualKey_def)
  from f(2) have c: "cache (settings p2) ''update_interval'' = Some (VDouble seconds)"
    by (simp add: sync_def setValue_def actualKey_def)
  have rb: "QString_toInt (number_g env seconds) = (n, True) \<and> seconds = double_of_int n \<longrightarrow>
               updateInterval (read_settings env a d (ini (settings p2))) = seconds"
  proof
    assume n: "QString_toInt (number_g env seconds) = (n, True) \<and> seconds = double_of_int n"
    from n have n1: "QString_toInt (number_g env seconds) = (n, True)" ..
    from n have n2: "seconds = double_of_int n" ..
    have "toInt (settings_value (open_settings (ini (settings p2))) [] ''update_interval'' (VInt 86400))
          = (n, True)"
      using i n1 by (simp add: settings_value_def open_settings_def actualKey_def)
    then show "updateInterval (read_settings env a d (ini (settings p2))) = seconds"
      using n2 by (simp add: read_settings_def Let_def)
  qed
  have "setUpdateCheckInterval env now seconds p = Inr p2"
    using r by (simp add: setUpdateCheckInterval_def)
  then show ?thesis
    using f1 c i t1 t2 rb by (intro exI [of _ p2] conjI) assumption+
qed

lemma PrismExternalUpdater_reads:
  assumes h: "autoCheck (read_settings env a d f) \<longrightarrow>
                timeoutDuration (read_settings env a d f) now = Inr m"
  shows "\<exists>q. PrismExternalUpdater env now a d f = Inr q \<and>
            autoCheck q = autoCheck (read_settings env a d f) \<and>
            updateInterval q = updateInterval (read_settings env a d f) \<and>
            allowBeta q = allowBeta (read_settings env a d f) \<and>
            isActive (updateTimer q) = autoCheck (read_settings env a d f)"
proof -
  from resetAutoCheckTimer_result [OF h]
  obtain q where r: "resetAutoCheckTimer now (read_settings env a d f) = Inr q"
    and f1: "autoCheck q = autoCheck (read_settings env a d f)"
    and f2: "updateInterval q = updateInterval (read_settings env a d f)"
    and f3: "allowBeta q = allowBeta (read_settings env a d f)"
    and f4: "isActive (updateTimer q) = autoCheck (read_settings env a d f)"
    by blast
  from r f1 f2 f3 f4 show ?thesis
    unfolding PrismExternalUpdater_def by (intro exI [of _ q] conjI) assumption+
qed

lemma setBetaAllowed_stores:
  "\<exists>k. cache (settings (setBetaAllowed env allowed p)) k = Some (VBool allowed) \<and>
       ini (settings (setBetaAllowed env allowed p)) k =
         Some (if allowed then ''true'' else ''false'')"
proof -
  have c: "cache (settings (setBetaAllowed env allowed p)) ''auto_beta'' = Some (VBool allowed)"
    by (simp add: setBetaAllowed_def sync_def setValue_def actualKey_def)
  have i: "ini (settings (setBetaAllowed env allowed p)) ''auto_beta'' =
         Some (if allowed then ''true'' else ''false'')"
    by (simp add: setBetaAllowed_def sync_def setValue_def actualKey_def variantToString_def)
  from c i show ?thesis by (intro exI [of _ "''auto_beta''"] conjI)
qed

lemma setBetaAllowed_synced:
  "ini (settings (setBetaAllowed env allowed p)) =
     (\<lambda>k. map_option (variantToString env) (cache (settings (setBetaAllowed env allowed p)) k))"
  by (simp add: setBetaAllowed_def sync_def)

lemma setBetaAllowed_frame:
  "allowBeta (setBetaAllowed env allowed p) = allowed"
  "updateTimer (setBetaAllowed env allowed p) = updateTimer p"
  "events (setBetaAllowed env allowed p) = events p"
  by (simp_all add: setBetaAllowed_def)

text \<open>
  C8, as the code has it. \<open>setAutomaticallyChecksForUpdates\<close> stores the value under
  \<open>auto_check\<close> in the settings object and in the file, and leaves the timer running
  exactly when the value is true, started anew with the delay the scheduler computes
  from the state as just set; the settings read from the file have the value.
  \<open>setUpdateCheckInterval\<close> stores the value under \<open>update_interval\<close> in the settings object
  and, as printed text, in the file; when auto-check is on it starts the timer anew with
  the delay computed from the interval just set, and leaves none running otherwise; the
  settings read from the file have the interval when the printed text reads as that whole
  number. Each of these holds where the delay that the call computes fits an \<open>int\<close>. An
  updater constructed on a file has the preferences read from the file, and a timer
  running exactly when auto-check is read as on, again where its delay fits an \<open>int\<close>.
  \<open>setBetaAllowed\<close> sets the preference of the running updater, stores the value under a
  key of the settings object and of the file, which then agree on every key, and touches
  neither the timer nor the trace.
\<close>

theorem setters_persist:
  "((check \<longrightarrow> timeoutDuration p now = Inr msec) \<longrightarrow>
      (\<exists>p1. setAutomaticallyChecksForUpdates env now check p = Inr p1 \<and>
            autoCheck p1 = check \<and>
            cache (settings p1) ''auto_check'' = Some (VBool check) \<and>
            ini (settings p1) ''auto_check'' = Some (if check then ''true'' else ''false'') \<and>
            isActive (updateTimer p1) = check \<and>
            (check \<longrightarrow> interval (updateTimer p1) = msec \<and>
               events p1 = events p @ [TimerStart msec]) \<and>
            autoCheck (read_settings env a d (ini (settings p1))) = check)) \<and>
   ((autoCheck p \<longrightarrow> timeoutDuration (p\<lparr>updateInterval := seconds\<rparr>) now = Inr msec') \<longrightarrow>
      (\<exists>p2. setUpdateCheckInterval env now seconds p = Inr p2 \<and>
            updateInterval p2 = seconds \<and>
            cache (settings p2) ''update_interval'' = Some (VDouble seconds) \<and>
            ini (settings p2) ''update_interval'' = Some (number_g env seconds) \<and>
            isActive (updateTimer p2) = autoCheck p \<and>
            (autoCheck p \<longrightarrow> interval (updateTimer p2) = msec' \<and>
               events p2 = events p @ [TimerStart msec']) \<and>
            (QString_toInt (number_g env seconds) = (n, True) \<and> seconds = double_of_int n \<longrightarrow>
               updateInterval (read_settings env a d (ini (settings p2))) = seconds))) \<and>
   ((autoCheck (read_settings env a d f) \<longrightarrow>
       timeoutDuration (read_settings env a d f) now' = Inr m) \<longrightarrow>
      (\<exists>q. PrismExternalUpdater env now' a d f = Inr q \<and>
            autoCheck q = autoCheck (read_settings env a d f) \<and>
            updateInterval q = updateInterval (read_settings env a d f) \<and>
            allowBeta q = allowBeta (read_settings env a d f) \<and>
            isActive (updateTimer q) = autoCheck (read_settings env a d f))) \<and>
   allowBeta (setBetaAllowed env allowed p) = allowed \<and>
   (\<exists>k. cache (settings (setBetaAllowed env allowed p)) k = Some (VBool allowed) \<and>
        ini (settings (setBetaAllowed env allowed p)) k =
          Some (if allowed then ''true'' else ''false'')) \<and>
   ini (settings (setBetaAllowed env allowed p)) =
     (\<lambda>k. map_option (variantToString env) (cache (settings (setBetaAllowed env allowed p)) k)) \<and>
   updateTimer (setBetaAllowed env allowed p) = updateTimer p \<and>
   events (setBetaAllowed env allowed p) = events p"
  by (intro conjI impI)
     (erule setAutomaticallyChecksForUpdates_persists,
      erule setUpdateCheckInterval_persists,
      erule PrismExternalUpdater_reads,
      rule setBetaAllowed_frame(1),
      rule setBetaAllowed_stores,
      rule setBetaAllowed_synced,
      rule setBetaAllowed_frame(2),
      rule setBetaAllowed_frame(3))

lemma Inr_projr: "r = Inr x \<Longrightarrow> r = Inr (projr r) \<and> projr r = x"
  by simp

text \<open>The definitions unfolded to evaluate the setters and the constructor.\<close>

lemmas eval_defs = setAutomaticallyChecksForUpdates_def setUpdateCheckInterval_def
  example_priv_def example_env_def sync_def setValue_def open_settings_def variantToString_def
  PrismExternalUpdater_def read_settings_def settings_value_def resetAutoCheckTimer_def
  timeoutDuration_def secs_left_def secsTo_def actualKey_def
  timer_start_def to_lower_def Let_def isNull_def isValid_def QString_toInt_def trimmed_def
  QChar_isSpace_def digit_of_def show_int_def show_nat_numeral digit_char_def double_eval

text \<open>
  Both setters 1000 seconds after a check, with auto-check on: the timer is started with
  85400000 milliseconds by the first and, for an interval of 3600 seconds, with 2600000
  milliseconds by the second; and an updater constructed on the file that the first
  setter wrote.
\<close>

theorem setters_persist_witness:
  "timeoutDuration (example_priv\<lparr>autoCheck := True, lastCheck := Some 0\<rparr>) 1000000
     = Inr 85400000 \<and>
   setAutomaticallyChecksForUpdates example_env 1000000 True
       (example_priv\<lparr>autoCheck := True, lastCheck := Some 0\<rparr>) =
     Inr (projr (setAutomaticallyChecksForUpdates example_env 1000000 True
       (example_priv\<lparr>autoCheck := True, lastCheck := Some 0\<rparr>))) \<and>
   ini (settings (projr (setAutomaticallyChecksForUpdates example_env 1000000 True
       (example_priv\<lparr>autoCheck := True, lastCheck := Some 0\<rparr>)))) ''auto_check'' = Some ''true'' \<and>
   events (projr (setAutomaticallyChecksForUpdates example_env 1000000 True
       (example_priv\<lparr>autoCheck := True, lastCheck := Some 0\<rparr>))) = [TimerStart 85400000] \<and>
   autoCheck (read_settings example_env ''/app'' ''/data''
     (ini (settings (projr (setAutomaticallyChecksForUpdates example_env 1000000 True
       (example_priv\<lparr>autoCheck := True, lastCheck := Some 0\<rparr>)))))) \<and>
   timeoutDuration (example_priv\<lparr>autoCheck := True, lastCheck := Some 0,
       updateInterval := Fin 3600\<rparr>) 1000000 = Inr 2600000 \<and>
   QString_toInt (number_g example_env (Fin 3600)) = (3600, True) \<and>
   Fin 3600 = double_of_int 3600 \<and>
   setUpdateCheckInterval example_env 1000000 (Fin 3600)
       (example_priv\<lparr>autoCheck := True, lastCheck := Some 0\<rparr>) =
     Inr (projr (setUpdateCheckInterval example_env 1000000 (Fin 3600)
       (example_priv\<lparr>autoCheck := True, lastCheck := Some 0\<rparr>))) \<and>
   ini (settings (projr (setUpdateCheckInterval example_env 1000000 (Fin 3600)
       (example_priv\<lparr>autoCheck := True, lastCheck := Some 0\<rparr>)))) ''update_interval''
     = Some ''3600'' \<and>
   events (projr (setUpdateCheckInterval example_env 1000000 (Fin 3600)
       (example_priv\<lparr>autoCheck := True, lastCheck := Some 0\<rparr>))) = [TimerStart 2600000] \<and>
   updateInterval (read_settings example_env ''/app'' ''/data''
     (ini (settings (projr (setUpdateCheckInterval example_env 1000000 (Fin 3600)
       (example_priv\<lparr>autoCheck := True, lastCheck := Some 0\<rparr>)))))) = Fin 3600 \<and>
   autoCheck (read_settings example_env ''/app'' ''/data''
       (ini (settings (projr (setAutomaticallyChecksForUpdates example_env 1000000 True
         (example_priv\<lparr>autoCheck := True, lastCheck := Some 0\<rparr>)))))) \<and>
   timeoutDuration (read_settings example_env ''/app'' ''/data''
       (ini (settings (projr (setAutomaticallyChecksForUpdates example_env 1000000 True
         (example_priv\<lparr>autoCheck := True, lastCheck := Some 0\<rparr>)))))) 5 = Inr 0 \<and>
   PrismExternalUpdater example_env 5 ''/app'' ''/data''
       (ini (settings (projr (setAutomaticallyChecksForUpdates example_env 1000000 True
         (example_priv\<lparr>autoCheck := True, lastCheck := Some 0\<rparr>))))) =
     Inr (projr (PrismExternalUpdater example_env 5 ''/app'' ''/data''
       (ini (settings (projr (setAutomaticallyChecksForUpdates example_env 1000000 True
         (example_priv\<lparr>autoCheck := True, lastCheck := Some 0\<rparr>))))))) \<and>
   autoCheck (projr (PrismExternalUpdater example_env 5 ''/app'' ''/data''
       (ini (settings (projr (setAutomaticallyChecksForUpdates example_env 1000000 True
         (example_priv\<lparr>autoCheck := True, lastCheck := Some 0\<rparr>))))))) \<and>
   updateInterval (projr (PrismExternalUpdater example_env 5 ''/app'' ''/data''
       (ini (settings (projr (setAutomaticallyChecksForUpdates example_env 1000000 True
         (example_priv\<lparr>autoCheck := True, lastCheck := Some 0\<rparr>))))))) = Fin 86400 \<and>
   isActive (updateTimer (projr (PrismExternalUpdater example_env 5 ''/app'' ''/data''
       (ini (settings (projr (setAutomaticallyChecksForUpdates example_env 1000000 True
         (example_priv\<lparr>autoCheck := True, lastCheck := Some 0\<rparr>))))))))"
  (is "?h1 \<and> ?a1 \<and> ?a2 \<and> ?a3 \<and> ?a4 \<and> ?h2 \<and> ?h3 \<and> ?h4 \<and> ?b1 \<and> ?b2 \<and> ?b3 \<and> ?b4 \<and>
       ?h5 \<and> ?h6 \<and> ?c1 \<and> ?c2 \<and> ?c3 \<and> ?c4")
proof -
  let ?p = "example_priv\<lparr>autoCheck := True, lastCheck := Some 0\<rparr>"
  let ?f = "ini (settings (projr (setAutomaticallyChecksForUpdates example_env 1000000 True ?p)))"
  let ?r = "read_settings example_env ''/app'' ''/data'' ?f"
  have h1: ?h1 by (simp add: eval_defs)
  have h2: ?h2 by (simp add: eval_defs)
  have h2': "timeoutDuration (?p\<lparr>updateInterval := Fin 3600\<rparr>) 1000000 = Inr 2600000"
    using h2 by (simp add: example_priv_def)
  have h3: ?h3 by (simp add: eval_defs)
  have h4: ?h4 by (simp add: double_of_int_exact)
  have h5: ?h5 by (simp add: eval_defs)
  have h6: ?h6 by (simp add: eval_defs)
  have ri: "updateInterval ?r = Fin 86400" by (simp add: eval_defs)
  have ng: "number_g example_env (Fin 3600) = ''3600''" by (simp add: eval_defs)
  have ev: "events ?p = []" "autoCheck ?p" by (simp_all add: example_priv_def)
  note T = setters_persist [where check = True and p = ?p and now = 1000000
      and msec = 85400000 and env = example_env and a = "''/app''" and d = "''/data''"
      and seconds = "Fin 3600" and msec' = 2600000 and n = 3600 and f = ?f and now' = 5
      and m = 0 and allowed = True]
  from T [THEN conjunct1] h1
  obtain p1 where s1: "setAutomaticallyChecksForUpdates example_env 1000000 True ?p = Inr p1"
    and i1: "ini (settings p1) ''auto_check'' = Some (if True then ''true'' else ''false'')"
    and e1: "True \<longrightarrow> interval (updateTimer p1) = 85400000 \<and>
               events p1 = events ?p @ [TimerStart 85400000]"
    and r1: "autoCheck (read_settings example_env ''/app'' ''/data'' (ini (settings p1))) = True"
    by blast
  note P1 = Inr_projr [OF s1]
  from T [THEN conjunct2, THEN conjunct1] h2' ev(2)
  obtain p2 where s2: "setUpdateCheckInterval example_env 1000000 (Fin 3600) ?p = Inr p2"
    and i2: "ini (settings p2) ''update_interval'' = Some (number_g example_env (Fin 3600))"
    and e2: "autoCheck ?p \<longrightarrow> interval (updateTimer p2) = 2600000 \<and>
               events p2 = events ?p @ [TimerStart 2600000]"
    and r2: "QString_toInt (number_g example_env (Fin 3600)) = (3600, True) \<and>
               Fin 3600 = double_of_int 3600 \<longrightarrow>
             updateInterval (read_settings example_env ''/app'' ''/data'' (ini (settings p2)))
               = Fin 3600"
    by blast
  note P2 = Inr_projr [OF s2]
  from T [THEN conjunct2, THEN conjunct2, THEN conjunct1] h5 h6
  obtain q where s3: "PrismExternalUpdater example_env 5 ''/app'' ''/data'' ?f = Inr q"
    and q1: "autoCheck q = autoCheck ?r"
    and q2: "updateInterval q = updateInterval ?r"
    and q3: "isActive (updateTimer q) = autoCheck ?r"
    by blast
  note P3 = Inr_projr [OF s3]
  have a1: ?a1 by (rule P1 [THEN conjunct1])
  have a2: ?a2 using i1 by (simp add: P1 [THEN conjunct2])
  have a3: ?a3 using e1 ev(1) by (simp add: P1 [THEN conjunct2])
  have a4: ?a4 using r1 by (simp add: P1 [THEN conjunct2])
  have b1: ?b1 by (rule P2 [THEN conjunct1])
  have b2: ?b2 using i2 ng by (simp add: P2 [THEN conjunct2])
  have b3: ?b3 using e2 ev by (simp add: P2 [THEN conjunct2])
  note b4' = r2 [THEN mp, OF conjI [OF h3 h4]]
  have b4: ?b4 using b4' by (simp add: P2 [THEN conjunct2])
  have c1: ?c1 by (rule P3 [THEN conjunct1])
  have c2: ?c2 using q1 h5 by (simp add: P3 [THEN conjunct2])
  have c3: ?c3 using q2 ri by (simp add: P3 [THEN conjunct2])
  have c4: ?c4 using q3 h5 by (simp add: P3 [THEN conjunct2])
  from h1 a1 a2 a3 a4 h2 h3 h4 b1 b2 b3 b4 h5 h6 c1 c2 c3 c4 show ?thesis
    by (intro conjI)
qed

text \<open>
  C8 as stated fails. \<open>setBetaAllowed\<close> leaves the timer idle and the trace empty in a
  state where the scheduler would start the timer with 85400000 milliseconds. After
  \<open>setUpdateCheckInterval\<close> with half a second the file holds \<open>0.5\<close>, which does not read as
  an integer, and an updater constructed on the file has the default interval of 86400
  seconds.
\<close>

theorem setters_persist_counterexample:
  "updateTimer (setBetaAllowed example_env True
       (example_priv\<lparr>autoCheck := True, lastCheck := Some 0\<rparr>)) =
     \<lparr>isActive = False, interval = 0\<rparr> \<and>
   events (setBetaAllowed example_env True
       (example_priv\<lparr>autoCheck := True, lastCheck := Some 0\<rparr>)) = [] \<and>
   resetAutoCheckTimer 1000000 (example_priv\<lparr>autoCheck := True, lastCheck := Some 0\<rparr>) =
     Inr (example_priv\<lparr>autoCheck := True, lastCheck := Some 0,
            updateTimer := \<lparr>isActive = True, interval = 85400000\<rparr>,
            events := [TimerStart 85400000]\<rparr>) \<and>
   is_double (1 / 2) \<and>
   setUpdateCheckInterval example_env 0 (Fin (1 / 2)) example_priv =
     Inr (projr (setUpdateCheckInterval example_env 0 (Fin (1 / 2)) example_priv)) \<and>
   updateInterval (projr (setUpdateCheckInterval example_env 0 (Fin (1 / 2)) example_priv))
     = Fin (1 / 2) \<and>
   ini (settings (projr (setUpdateCheckInterval example_env 0 (Fin (1 / 2)) example_priv)))
     ''update_interval'' = Some ''0.5'' \<and>
   QString_toInt ''0.5'' = (0, False) \<and>
   map_sum id updateInterval
     (PrismExternalUpdater example_env 5 ''/app'' ''/data''
        (ini (settings (projr (setUpdateCheckInterval example_env 0 (Fin (1 / 2)) example_priv)))))
     = Inr (Fin 86400)"
proof -
  have 1: "updateTimer (setBetaAllowed example_env True
       (example_priv\<lparr>autoCheck := True, lastCheck := Some 0\<rparr>)) =
     \<lparr>isActive = False, interval = 0\<rparr>"
    by (simp add: setBetaAllowed_def example_priv_def)
  have 2: "events (setBetaAllowed example_env True
       (example_priv\<lparr>autoCheck := True, lastCheck := Some 0\<rparr>)) = []"
    by (simp add: setBetaAllowed_def example_priv_def)
  have 3: "resetAutoCheckTimer 1000000 (example_priv\<lparr>autoCheck := True, lastCheck := Some 0\<rparr>) =
     Inr (example_priv\<lparr>autoCheck := True, lastCheck := Some 0,
            updateTimer := \<lparr>isActive = True, interval = 85400000\<rparr>,
            events := [TimerStart 85400000]\<rparr>)"
    by (simp add: eval_defs)
  have 4: "is_double (1 / 2)" by (simp add: is_double_def double_eval)
  have 5: "setUpdateCheckInterval example_env 0 (Fin (1 / 2)) example_priv =
     Inr (projr (setUpdateCheckInterval example_env 0 (Fin (1 / 2)) example_priv))"
    by (simp add: eval_defs)
  have 6: "updateInterval (projr (setUpdateCheckInterval example_env 0 (Fin (1 / 2)) example_priv))
     = Fin (1 / 2)"
    by (simp add: eval_defs)
  have 7: "ini (settings (projr (setUpdateCheckInterval example_env 0 (Fin (1 / 2)) example_priv)))
     ''update_interval'' = Some ''0.5''"
    by (simp add: eval_defs)
  have 8: "QString_toInt ''0.5'' = (0, False)"
    by (simp add: eval_defs)
  have 9: "map_sum id updateInterval
     (PrismExternalUpdater example_env 5 ''/app'' ''/data''
        (ini (settings (projr (setUpdateCheckInterval example_env 0 (Fin (1 / 2)) example_priv)))))
     = Inr (Fin 86400)"
    by (simp add: eval_defs)
  from 1 2 3 4 5 6 7 8 9 show ?thesis by (intro conjI)
qed

text \<open>
  The key that \<open>setBetaAllowed\<close> writes is \<open>auto_beta\<close>; the entry \<open>allow_beta\<close>, which the
  constructor reads, is left as it was, so that an updater constructed on the file of a
  fresh updater after \<open>setBetaAllowed True\<close> reads beta as not allowed.
\<close>

lemma setBetaAllowed_key_differs:
  "cache (settings (setBetaAllowed env allowed p)) ''auto_beta'' = Some (VBool allowed) \<and>
   cache (settings (setBetaAllowed env allowed p)) ''allow_beta'' =
     cache (settings p) ''allow_beta'' \<and>
   allowBeta (read_settings env a d f) =
     toBool (settings_value (open_settings f) [] ''allow_beta'' (VBool False)) \<and>
   \<not> allowBeta (read_settings example_env ''/app'' ''/data''
       (ini (settings (setBetaAllowed example_env True example_priv))))"
  by (simp add: setBetaAllowed_def read_settings_def sync_def setValue_def actualKey_def
        settings_value_def open_settings_def example_priv_def Let_def)

end
